theory Spec2Isabelle
  imports Main
begin

section \<open>Data model of the roster\<close>

text \<open>
  The types of the roster application (the second part of the source file): string-literal
  unions become datatypes, interfaces become records, an optional field \<^verbatim>\<open>f?: T\<close> becomes a
  field of type \<open>T option\<close> (\<open>None\<close> is \<^verbatim>\<open>undefined\<close>).

  Three interfaces of the source have a field called \<^verbatim>\<open>shiftType\<close>, and two a field called
  \<^verbatim>\<open>date\<close>. The staff member keeps the plain names; the fields of an override, of a
  shift state and of a day carry the prefixes \<open>ov_\<close>, \<open>st_\<close> and \<open>day_\<close> where the
  name would clash. The field \<^verbatim>\<open>id\<close> is \<open>staff_id\<close>, the visual type \<^verbatim>\<open>'None'\<close> is
  \<open>None_visual\<close>, and the fields \<^verbatim>\<open>start\<close>, \<^verbatim>\<open>end\<close> of a time window are
  \<open>t_start\<close>, \<open>t_end\<close>.
\<close>

datatype ShiftType = Normal | Half

datatype EmploymentStatus = Permanent | Casual

text \<open>The type \<^verbatim>\<open>ShiftType | 'Off'\<close> of a shift state and of \<^verbatim>\<open>nextState\<close>.\<close>

datatype ShiftTypeOrOff = Shift ShiftType | Off

datatype VisualType = Solid | Hollow | None_visual | Dash

text \<open>
  A JavaScript number that holds an integer, or \<^verbatim>\<open>NaN\<close> (\<open>None\<close>). The numbers of this
  program are day counts and millisecond counts far inside the range where doubles are exact,
  so integer arithmetic is the arithmetic of the code; pattern lengths that are fractions or
  \<^verbatim>\<open>NaN\<close> are not modelled.
\<close>

type_synonym number = "int option"

record ShiftOverride =
  ov_date :: string
  startTime :: "string option"
  endTime :: "string option"
  isDayOff :: "bool option"
  ov_shiftType :: "ShiftType option"

record StaffMember =
  staff_id :: string
  name :: string
  role :: string
  cycleStartDate :: string
  patternOn :: int
  patternOff :: int
  shiftType :: ShiftType
  status :: EmploymentStatus
  overrides :: "ShiftOverride list option"

record DayStatus =
  day_date :: number
  isWorkDay :: bool
  dayName :: string
  dayNumber :: int
  fullDateStr :: string

record ShiftState =
  isWorking :: bool
  st_shiftType :: ShiftTypeOrOff
  visualType :: VisualType
  label :: string

record ShiftTimes =
  t_start :: string
  t_end :: string

section \<open>JavaScript primitives used by the calculator\<close>

subsection \<open>Numbers with NaN\<close>

definition num_add :: "number \<Rightarrow> number \<Rightarrow> number" where
  "num_add a b = (case a of None \<Rightarrow> None | Some x \<Rightarrow> (case b of None \<Rightarrow> None | Some y \<Rightarrow> Some (x + y)))"

definition num_sub :: "number \<Rightarrow> number \<Rightarrow> number" where
  "num_sub a b = (case a of None \<Rightarrow> None | Some x \<Rightarrow> (case b of None \<Rightarrow> None | Some y \<Rightarrow> Some (x - y)))"

text \<open>
  The operator \<^verbatim>\<open>%\<close>: the remainder takes the sign of the dividend, and a zero divisor
  gives \<^verbatim>\<open>NaN\<close> (no exception is raised).
\<close>

definition js_rem :: "int \<Rightarrow> int \<Rightarrow> number" where
  "js_rem a n = (if n = 0 then None else Some (sgn a * (\<bar>a\<bar> mod \<bar>n\<bar>)))"

definition num_rem :: "number \<Rightarrow> number \<Rightarrow> number" where
  "num_rem a b = (case a of None \<Rightarrow> None | Some x \<Rightarrow> (case b of None \<Rightarrow> None | Some y \<Rightarrow> js_rem x y))"

text \<open>\<^verbatim>\<open>Math.floor(a / n)\<close> for a positive constant \<open>n\<close>.\<close>

definition num_floor_div :: "number \<Rightarrow> int \<Rightarrow> number" where
  "num_floor_div a n = (case a of None \<Rightarrow> None | Some x \<Rightarrow> Some (x div n))"

text \<open>The comparison \<^verbatim>\<open><\<close>: false as soon as one side is \<^verbatim>\<open>NaN\<close>.\<close>

definition num_less :: "number \<Rightarrow> number \<Rightarrow> bool" where
  "num_less a b = (case a of None \<Rightarrow> False | Some x \<Rightarrow> (case b of None \<Rightarrow> False | Some y \<Rightarrow> x < y))"

subsection \<open>Strings\<close>

text \<open>\<^verbatim>\<open>s.split(c)\<close> for a one-character separator.\<close>

fun split :: "char \<Rightarrow> string \<Rightarrow> string list" where
  "split c [] = [] # []"
| "split c (x # xs) =
     (if x = c then [] # split c xs
      else (case split c xs of [] \<Rightarrow> [x] # [] | w # ws \<Rightarrow> (x # w) # ws))"

text \<open>The value of a decimal digit, by its character code (48 is the code of the digit 0).\<close>

definition digit_val :: "char \<Rightarrow> int option" where
  "digit_val c =
     (let code = (of_char c :: nat)
      in if 48 \<le> code \<and> code \<le> 57 then Some (int code - 48) else None)"

fun digits_val :: "int \<Rightarrow> string \<Rightarrow> number" where
  "digits_val acc [] = Some acc"
| "digits_val acc (c # cs) =
     (case digit_val c of None \<Rightarrow> None | Some v \<Rightarrow> digits_val (10 * acc + v) cs)"

text \<open>
  \<^verbatim>\<open>Number(s)\<close> on the strings a date can be made of: a run of decimal digits is its value
  and the empty string is 0. Every other string is taken to \<^verbatim>\<open>NaN\<close>, where JavaScript
  also trims blanks and reads signs, decimal points, exponents and other radixes. The model is
  exact on the pieces of a date string of the form YYYY-MM-DD, and every statement below that
  depends on the value of a date is made for such strings only.
\<close>

definition Number :: "string \<Rightarrow> number" where
  "Number s = digits_val 0 s"

text \<open>Reading position \<open>i\<close> of an array that may be too short gives \<^verbatim>\<open>undefined\<close>, a
  \<^verbatim>\<open>NaN\<close> once it is used as a number.\<close>

definition at_index :: "number list \<Rightarrow> nat \<Rightarrow> number" where
  "at_index xs i = (if i < length xs then xs ! i else None)"

text \<open>Truthiness of an optional string and of an optional boolean.\<close>

definition truthy_str :: "string option \<Rightarrow> bool" where
  "truthy_str s = (case s of None \<Rightarrow> False | Some t \<Rightarrow> t \<noteq> [])"

definition truthy_bool :: "bool option \<Rightarrow> bool" where
  "truthy_bool b = (case b of None \<Rightarrow> False | Some v \<Rightarrow> v)"

subsection \<open>The Date object\<close>

text \<open>
  \<^verbatim>\<open>new Date(y, m, d)\<close> is the midnight that starts the given day in the local time of the host,
  and \<^verbatim>\<open>getTime()\<close> is that instant in milliseconds of universal time. The host's time zone is
  a parameter: \<open>tz t\<close> is the offset, in milliseconds, of local time from universal time at
  the local time \<open>t\<close> (the language standard's \<^verbatim>\<open>LocalTZA(t, false)\<close>).
\<close>

type_synonym timezone = "int \<Rightarrow> int"

definition msPerDay :: int where
  "msPerDay = 1000 * 60 * 60 * 24"

definition dayFromYear :: "int \<Rightarrow> int" where
  "dayFromYear y = 365 * (y - 1970) + (y - 1969) div 4 - (y - 1901) div 100 + (y - 1601) div 400"

definition inLeapYear :: "int \<Rightarrow> bool" where
  "inLeapYear y = (y mod 4 = 0 \<and> (y mod 100 \<noteq> 0 \<or> y mod 400 = 0))"

text \<open>Days of the year before month \<open>mn\<close> (0 is January).\<close>

definition monthStart :: "int \<Rightarrow> int \<Rightarrow> int" where
  "monthStart y mn =
     [0, 31, 59, 90, 120, 151, 181, 212, 243, 273, 304, 334] ! nat mn
       + (if inLeapYear y \<and> 2 \<le> mn then 1 else 0)"

text \<open>\<^verbatim>\<open>MakeDay\<close>: a month outside 0..11 carries into the year, a day outside the month
  carries into the next months.\<close>

definition makeDay :: "int \<Rightarrow> int \<Rightarrow> int \<Rightarrow> int" where
  "makeDay year month dt =
     (let ym = year + month div 12; mn = month mod 12
      in dayFromYear ym + monthStart ym mn + dt - 1)"

text \<open>
  The time value of \<^verbatim>\<open>new Date(y, m, d)\<close>: \<^verbatim>\<open>NaN\<close> if an argument is, a year from 0 to 99
  counts from 1900, and a time value beyond 8.64e15 milliseconds is \<^verbatim>\<open>NaN\<close>.
\<close>

definition newDate :: "timezone \<Rightarrow> number \<Rightarrow> number \<Rightarrow> number \<Rightarrow> number" where
  "newDate tz y m d =
     (case y of None \<Rightarrow> None | Some yv \<Rightarrow>
      (case m of None \<Rightarrow> None | Some mv \<Rightarrow>
      (case d of None \<Rightarrow> None | Some dv \<Rightarrow>
         (let yr = (if 0 \<le> yv \<and> yv \<le> 99 then 1900 + yv else yv);
              local = makeDay yr mv dv * msPerDay;
              utc = local - tz local
          in if \<bar>utc\<bar> \<le> 8640000000000000 then Some utc else None))))"

section \<open>The shift calculator\<close>

text \<open>
  \<^verbatim>\<open>isStaffWorking\<close>, with its local constants as functions of their own so that they can be
  spoken about: \<open>localMidnight\<close> is \<^verbatim>\<open>new Date(y, m - 1, d).getTime()\<close> after the split of
  the date string.
\<close>

definition localMidnight :: "timezone \<Rightarrow> string \<Rightarrow> number" where
  "localMidnight tz dateStr =
     (let parts = map Number (split CHR ''-'' dateStr);
          y = at_index parts 0; m = at_index parts 1; d = at_index parts 2
      in newDate tz y (num_sub m (Some 1)) d)"

definition diffDays :: "timezone \<Rightarrow> StaffMember \<Rightarrow> string \<Rightarrow> number" where
  "diffDays tz staff targetDateStr =
     (let cycleStart = localMidnight tz (cycleStartDate staff);
          target = localMidnight tz targetDateStr;
          diffTime = num_sub target cycleStart
      in num_floor_div diffTime (1000 * 60 * 60 * 24))"

definition dayInCycle :: "timezone \<Rightarrow> StaffMember \<Rightarrow> string \<Rightarrow> number" where
  "dayInCycle tz staff targetDateStr =
     (let totalCycleLength = Some (patternOn staff + patternOff staff)
      in num_rem (num_add (num_rem (diffDays tz staff targetDateStr) totalCycleLength)
                          totalCycleLength)
                 totalCycleLength)"

definition isStaffWorking :: "timezone \<Rightarrow> StaffMember \<Rightarrow> string \<Rightarrow> bool" where
  "isStaffWorking tz staff targetDateStr =
     num_less (dayInCycle tz staff targetDateStr) (Some (patternOn staff))"

text \<open>\<^verbatim>\<open>staff.overrides?.find(o => o.date === dateStr)\<close>: the first override of that date.\<close>

definition findOverride :: "StaffMember \<Rightarrow> string \<Rightarrow> ShiftOverride option" where
  "findOverride staff dateStr =
     (case overrides staff of None \<Rightarrow> None
      | Some ovs \<Rightarrow> find (\<lambda>ov. ov_date ov = dateStr) ovs)"

definition calculateShiftState :: "timezone \<Rightarrow> StaffMember \<Rightarrow> DayStatus \<Rightarrow> ShiftState" where
  "calculateShiftState tz staff day =
     (let override = findOverride staff (fullDateStr day)
      in if truthy_bool (Option.bind override isDayOff)
         then \<lparr>isWorking = False, st_shiftType = Off, visualType = Dash,
               label = ''Day Off (Manual)''\<rparr>
         else if Option.bind override ov_shiftType \<noteq> None
         then (if Option.bind override ov_shiftType = Some Half
               then \<lparr>isWorking = True, st_shiftType = Shift Half, visualType = Hollow,
                     label = ''Half Shift (Manual)''\<rparr>
               else \<lparr>isWorking = True, st_shiftType = Shift Normal, visualType = Solid,
                     label = ''Normal Shift (Manual)''\<rparr>)
         else (let working = isStaffWorking tz staff (fullDateStr day)
               in if \<not> working
                  then \<lparr>isWorking = False, st_shiftType = Off, visualType = Dash,
                        label = ''Off''\<rparr>
                  else \<lparr>isWorking = True, st_shiftType = Shift Normal, visualType = Solid,
                        label = ''Normal Shift''\<rparr>))"

definition getShiftTimes :: "StaffMember \<Rightarrow> string \<Rightarrow> ShiftType \<Rightarrow> ShiftTimes" where
  "getShiftTimes staff dateStr shiftType' =
     (let override = findOverride staff dateStr
      in if truthy_str (Option.bind override startTime) \<and> truthy_str (Option.bind override endTime)
         then \<lparr>t_start = the (Option.bind override startTime),
               t_end = the (Option.bind override endTime)\<rparr>
         else if shiftType' = Half then \<lparr>t_start = ''08:00'', t_end = ''13:00''\<rparr>
         else \<lparr>t_start = ''08:00'', t_end = ''17:00''\<rparr>)"

section \<open>The quick cycle of the roster grid\<close>

text \<open>\<^verbatim>\<open>xs.findIndex(P)\<close>: the position of the first element that satisfies \<open>P\<close>, or -1.\<close>

fun findIndex :: "('a \<Rightarrow> bool) \<Rightarrow> 'a list \<Rightarrow> int" where
  "findIndex P [] = - 1"
| "findIndex P (x # xs) =
     (if P x then 0 else (let i = findIndex P xs in if i < 0 then - 1 else i + 1))"

text \<open>\<^verbatim>\<open>xs.splice(idx, 1)\<close> for \<open>0 \<le> idx\<close>: the array without the element at \<open>idx\<close>.\<close>

definition splice1 :: "'a list \<Rightarrow> int \<Rightarrow> 'a list" where
  "splice1 xs idx = take (nat idx) xs @ drop (nat idx + 1) xs"

text \<open>The local variable \<^verbatim>\<open>nextState\<close> of \<^verbatim>\<open>handleQuickCycle\<close>, \<^verbatim>\<open>'Half'\<close> unless one of
  the two tests changes it.\<close>

definition nextState :: "ShiftState \<Rightarrow> ShiftTypeOrOff" where
  "nextState shiftState =
     (if st_shiftType shiftState = Shift Half then Off
      else if st_shiftType shiftState = Off \<or> \<not> isWorking shiftState then Shift Normal
      else Shift Half)"

text \<open>The body of the \<^verbatim>\<open>staff.map\<close> callback of \<^verbatim>\<open>handleQuickCycle\<close> for the staff member
  whose id is the clicked one; it works on a copy of the override array.\<close>

definition quickCycleStaff :: "timezone \<Rightarrow> StaffMember \<Rightarrow> DayStatus \<Rightarrow> ShiftState \<Rightarrow> StaffMember" where
  "quickCycleStaff tz p day shiftState =
     (let copied = (case overrides p of None \<Rightarrow> [] | Some ovs \<Rightarrow> ovs);
          idx = findIndex (\<lambda>ov. ov_date ov = fullDateStr day) copied;
          spliced = (if 0 \<le> idx then splice1 copied idx else copied);
          currentOverrides =
            (if nextState shiftState = Off
             then spliced @ [\<lparr>ov_date = fullDateStr day, startTime = None, endTime = None,
                               isDayOff = Some True, ov_shiftType = None\<rparr>]
             else if nextState shiftState = Shift Half
             then spliced @ [\<lparr>ov_date = fullDateStr day, startTime = Some ''08:00'',
                               endTime = Some ''13:00'', isDayOff = Some False,
                               ov_shiftType = Some Half\<rparr>]
             else (let baseWorking = isStaffWorking tz p (fullDateStr day)
                   in if \<not> baseWorking
                      then spliced @ [\<lparr>ov_date = fullDateStr day, startTime = Some ''08:00'',
                                        endTime = Some ''17:00'', isDayOff = Some False,
                                        ov_shiftType = Some Normal\<rparr>]
                      else spliced))
      in p\<lparr>overrides := Some currentOverrides\<rparr>)"

text \<open>
  \<^verbatim>\<open>handleQuickCycle\<close>: \<open>staff\<close> and the optional callback \<open>onUpdateStaff\<close> are the properties
  of the grid. The result is \<open>None\<close> when there is no callback (the early return), and
  otherwise what the callback returns on the new staff list.
\<close>

definition handleQuickCycle ::
  "timezone \<Rightarrow> StaffMember list \<Rightarrow> (StaffMember list \<Rightarrow> 'r) option \<Rightarrow>
     StaffMember \<Rightarrow> DayStatus \<Rightarrow> ShiftState \<Rightarrow> 'r option" where
  "handleQuickCycle tz staff onUpdateStaff person day shiftState =
     (case onUpdateStaff of None \<Rightarrow> None
      | Some callback \<Rightarrow>
          Some (callback (map (\<lambda>p. if staff_id p \<noteq> staff_id person then p
                                   else quickCycleStaff tz p day shiftState) staff)))"

text \<open>The three override records that the quick cycle writes.\<close>

definition dayOffOverride :: "string \<Rightarrow> ShiftOverride" where
  "dayOffOverride d =
     \<lparr>ov_date = d, startTime = None, endTime = None, isDayOff = Some True,
      ov_shiftType = None\<rparr>"

definition halfOverride :: "string \<Rightarrow> ShiftOverride" where
  "halfOverride d =
     \<lparr>ov_date = d, startTime = Some ''08:00'', endTime = Some ''13:00'',
      isDayOff = Some False, ov_shiftType = Some Half\<rparr>"

definition normalOverride :: "string \<Rightarrow> ShiftOverride" where
  "normalOverride d =
     \<lparr>ov_date = d, startTime = Some ''08:00'', endTime = Some ''17:00'',
      isDayOff = Some False, ov_shiftType = Some Normal\<rparr>"

text \<open>A list without its first element that satisfies \<open>P\<close>: what \<^verbatim>\<open>findIndex\<close> followed by
  \<^verbatim>\<open>splice\<close> is meant to leave.\<close>

fun withoutFirst :: "('a \<Rightarrow> bool) \<Rightarrow> 'a list \<Rightarrow> 'a list" where
  "withoutFirst P [] = []"
| "withoutFirst P (x # xs) = (if P x then xs else x # withoutFirst P xs)"

text \<open>The overrides of a staff member with the first entry for the day taken out.\<close>

definition clearedOverrides :: "StaffMember \<Rightarrow> DayStatus \<Rightarrow> ShiftOverride list" where
  "clearedOverrides p day =
     withoutFirst (\<lambda>ov. ov_date ov = fullDateStr day)
       (case overrides p of None \<Rightarrow> [] | Some ovs \<Rightarrow> ovs)"

section \<open>Well-formed input and example hosts\<close>

text \<open>A date string of the form YYYY-MM-DD: ten characters, digits around two hyphens.\<close>

definition is_digit :: "char \<Rightarrow> bool" where
  "is_digit c = (digit_val c \<noteq> None)"

fun isoDate :: "string \<Rightarrow> bool" where
  "isoDate [y1, y2, y3, y4, h1, m1, m2, h2, d1, d2] =
     (is_digit y1 \<and> is_digit y2 \<and> is_digit y3 \<and> is_digit y4 \<and> h1 = CHR ''-''
      \<and> is_digit m1 \<and> is_digit m2 \<and> h2 = CHR ''-'' \<and> is_digit d1 \<and> is_digit d2)"
| "isoDate _ = False"

text \<open>
  The number of the calendar day that a date string names, counted from 1970-01-01: what
  \<^verbatim>\<open>new Date(y, m - 1, d)\<close> takes for its local midnight, free of any time zone.
\<close>

definition civilDay :: "string \<Rightarrow> number" where
  "civilDay dateStr =
     (let parts = map Number (split CHR ''-'' dateStr)
      in case at_index parts 0 of None \<Rightarrow> None | Some y \<Rightarrow>
         (case at_index parts 1 of None \<Rightarrow> None | Some m \<Rightarrow>
         (case at_index parts 2 of None \<Rightarrow> None | Some d \<Rightarrow>
            Some (makeDay (if 0 \<le> y \<and> y \<le> 99 then 1900 + y else y) (m - 1) d))))"

text \<open>A host whose offset from universal time never changes, and the bound that every real time
  zone meets: an offset of at most a day.\<close>

definition fixedOffset :: "int \<Rightarrow> timezone" where
  "fixedOffset off = (\<lambda>t. off)"

definition plausibleZone :: "timezone \<Rightarrow> bool" where
  "plausibleZone tz = (\<forall>t. \<bar>tz t\<bar> \<le> msPerDay)"

text \<open>
  The eastern time zone of the United States in 2024: five hours behind universal time, and
  four hours behind from 02:00 on 10 March to 02:00 on 3 November, in local time.
\<close>

definition usEastern2024 :: timezone where
  "usEastern2024 t =
     (if makeDay 2024 2 10 * msPerDay + 2 * 3600000 \<le> t
         \<and> t < makeDay 2024 10 3 * msPerDay + 2 * 3600000
      then - (4 * 3600000) else - (5 * 3600000))"

definition exampleStaff :: "string \<Rightarrow> int \<Rightarrow> int \<Rightarrow> ShiftOverride list option \<Rightarrow> StaffMember" where
  "exampleStaff start on off ovs =
     \<lparr>staff_id = ''s1'', name = ''Thandi'', role = ''Reception'', cycleStartDate = start,
      patternOn = on, patternOff = off, shiftType = Normal, status = Permanent,
      overrides = ovs\<rparr>"

definition exampleDay :: "string \<Rightarrow> DayStatus" where
  "exampleDay dateStr =
     \<lparr>day_date = None, isWorkDay = False, dayName = ''MON'', dayNumber = 1,
      fullDateStr = dateStr\<rparr>"

section \<open>Facts about the primitives\<close>

lemma num_simps [simp]:
  "num_add (Some x) (Some y) = Some (x + y)"
  "num_sub (Some x) (Some y) = Some (x - y)"
  "num_rem (Some x) (Some y) = js_rem x y"
  "num_floor_div (Some x) n = Some (x div n)"
  "num_less (Some x) (Some y) = (x < y)"
  "num_less None b = False"
  "num_add None b = None" "num_sub None b = None" "num_rem None b = None"
  "num_floor_div None n = None"
  by (simp_all add: num_add_def num_sub_def num_rem_def num_floor_div_def num_less_def)

lemma js_rem_nonneg: "0 \<le> a \<Longrightarrow> 0 < n \<Longrightarrow> js_rem a n = Some (a mod n)"
  by (cases "a = 0") (simp_all add: js_rem_def)

lemma js_rem_neg: "a < 0 \<Longrightarrow> 0 < n \<Longrightarrow> js_rem a n = Some (- ((- a) mod n))"
  by (simp add: js_rem_def)

lemma js_rem_normalised:
  assumes "0 < n"
  shows "num_rem (num_add (js_rem k n) (Some n)) (Some n) = Some (k mod n)"
proof (cases "0 \<le> k")
  case True
  with assms have "js_rem k n = Some (k mod n)" by (simp add: js_rem_nonneg)
  moreover have "0 \<le> k mod n + n" using assms by simp
  ultimately show ?thesis using assms by (simp add: js_rem_nonneg)
next
  case False
  then have neg: "k < 0" by simp
  with assms have r: "js_rem k n = Some (- ((- k) mod n))" by (simp add: js_rem_neg)
  have "(- k) mod n < n" using assms by simp
  then have nn: "0 \<le> - ((- k) mod n) + n" by simp
  have "(- ((- k) mod n) + n) mod n = (- ((- k) mod n)) mod n" by simp
  also have "\<dots> = (- (- k)) mod n" by (simp add: mod_minus_eq)
  finally have "(- ((- k) mod n) + n) mod n = k mod n" by simp
  with r nn assms show ?thesis by (simp add: js_rem_nonneg)
qed

lemma dayInCycle_Some:
  assumes "diffDays tz staff d = Some k" and "1 \<le> patternOn staff + patternOff staff"
  shows "dayInCycle tz staff d = Some (k mod (patternOn staff + patternOff staff))"
  using assms by (simp add: dayInCycle_def js_rem_normalised)

lemma dayInCycle_NaN: "diffDays tz staff d = None \<Longrightarrow> dayInCycle tz staff d = None"
  by (simp add: dayInCycle_def)

lemma dayInCycle_zero_cycle:
  "patternOn staff + patternOff staff = 0 \<Longrightarrow> dayInCycle tz staff d = None"
  by (cases "diffDays tz staff d") (simp_all add: dayInCycle_def js_rem_def)

lemma div_between:
  fixes x :: int
  assumes "lo \<le> x" "x \<le> hi" "0 < n"
  shows "lo div n \<le> x div n \<and> x div n \<le> hi div n"
  using assms by (simp add: zdiv_mono1)

lemma dayFromYear_bounds:
  assumes "0 \<le> y" "y \<le> 10100"
  shows "- 720000 \<le> dayFromYear y \<and> dayFromYear y \<le> 3000000"
proof -
  have a: "(- 1969) div 4 \<le> (y - 1969) div 4 \<and> (y - 1969) div 4 \<le> 8131 div 4"
    using assms by (intro div_between) simp_all
  have b: "(- 1901) div 100 \<le> (y - 1901) div 100 \<and> (y - 1901) div 100 \<le> 8199 div 100"
    using assms by (intro div_between) simp_all
  have c: "(- 1601) div 400 \<le> (y - 1601) div 400 \<and> (y - 1601) div 400 \<le> 8499 div 400"
    using assms by (intro div_between) simp_all
  show ?thesis using a b c assms unfolding dayFromYear_def by simp
qed

lemma nth_bounded:
  fixes xs :: "int list"
  assumes "i < length xs" and "\<forall>x \<in> set xs. lo \<le> x \<and> x \<le> hi"
  shows "lo \<le> xs ! i \<and> xs ! i \<le> hi"
  using assms nth_mem by blast

lemma monthStart_bounds:
  assumes "0 \<le> mn" "mn < 12"
  shows "0 \<le> monthStart y mn \<and> monthStart y mn \<le> 335"
proof -
  define a where "a = [0, 31, 59, 90, 120, 151, 181, 212, 243, 273, 304, 334::int] ! nat mn"
  define b where "b = (if inLeapYear y \<and> 2 \<le> mn then 1 else 0::int)"
  have "0 \<le> a \<and> a \<le> 334"
    unfolding a_def by (rule nth_bounded) (use assms in simp_all)
  moreover have "0 \<le> b \<and> b \<le> 1" by (simp add: b_def)
  moreover have "monthStart y mn = a + b" by (simp only: monthStart_def a_def b_def)
  ultimately show ?thesis by linarith
qed

lemma makeDay_bounds:
  assumes "100 \<le> yr" "yr \<le> 9999" "- 1 \<le> mo" "mo \<le> 98" "0 \<le> d" "d \<le> 99"
  shows "\<bar>makeDay yr mo d\<bar> \<le> 4000000"
proof -
  have "(- 1) div 12 \<le> mo div 12 \<and> mo div 12 \<le> 98 div 12"
    using assms by (intro div_between) simp_all
  then have ym: "0 \<le> yr + mo div 12" "yr + mo div 12 \<le> 10100" using assms by simp_all
  have mn: "0 \<le> mo mod 12" "mo mod 12 < 12" by simp_all
  have "- 720000 \<le> dayFromYear (yr + mo div 12) \<and> dayFromYear (yr + mo div 12) \<le> 3000000"
    using ym by (rule dayFromYear_bounds)
  moreover have "0 \<le> monthStart (yr + mo div 12) (mo mod 12) \<and> monthStart (yr + mo div 12) (mo mod 12) \<le> 335"
    using mn by (rule monthStart_bounds)
  ultimately show ?thesis using assms(5,6) unfolding makeDay_def Let_def by linarith
qed


lemma digit_val_range: "digit_val c = Some v \<Longrightarrow> 0 \<le> v \<and> v \<le> 9 \<and> c \<noteq> CHR ''-''"
  by (auto simp: digit_val_def Let_def split: if_splits)

lemma is_digitE:
  assumes "is_digit c"
  obtains v where "digit_val c = Some v" "0 \<le> v" "v \<le> 9" "c \<noteq> CHR ''-''"
  using assms digit_val_range by (cases "digit_val c") (auto simp: is_digit_def)

lemma isoDate_parts:
  assumes "isoDate s"
  shows "\<exists>y m d. map Number (split CHR ''-'' s) = [Some y, Some m, Some d]
           \<and> 0 \<le> y \<and> y \<le> 9999 \<and> 0 \<le> m \<and> m \<le> 99 \<and> 0 \<le> d \<and> d \<le> 99"
proof -
  from assms obtain y1 y2 y3 y4 m1 m2 d1 d2 where
    s: "s = [y1, y2, y3, y4, CHR ''-'', m1, m2, CHR ''-'', d1, d2]" and
    dg: "is_digit y1" "is_digit y2" "is_digit y3" "is_digit y4"
        "is_digit m1" "is_digit m2" "is_digit d1" "is_digit d2"
    by (elim isoDate.elims(2)) blast
  from dg(1) obtain a1 where a1: "digit_val y1 = Some a1" "0 \<le> a1" "a1 \<le> 9" "y1 \<noteq> CHR ''-''" by (rule is_digitE)
  from dg(2) obtain a2 where a2: "digit_val y2 = Some a2" "0 \<le> a2" "a2 \<le> 9" "y2 \<noteq> CHR ''-''" by (rule is_digitE)
  from dg(3) obtain a3 where a3: "digit_val y3 = Some a3" "0 \<le> a3" "a3 \<le> 9" "y3 \<noteq> CHR ''-''" by (rule is_digitE)
  from dg(4) obtain a4 where a4: "digit_val y4 = Some a4" "0 \<le> a4" "a4 \<le> 9" "y4 \<noteq> CHR ''-''" by (rule is_digitE)
  from dg(5) obtain b1 where b1: "digit_val m1 = Some b1" "0 \<le> b1" "b1 \<le> 9" "m1 \<noteq> CHR ''-''" by (rule is_digitE)
  from dg(6) obtain b2 where b2: "digit_val m2 = Some b2" "0 \<le> b2" "b2 \<le> 9" "m2 \<noteq> CHR ''-''" by (rule is_digitE)
  from dg(7) obtain c1 where c1: "digit_val d1 = Some c1" "0 \<le> c1" "c1 \<le> 9" "d1 \<noteq> CHR ''-''" by (rule is_digitE)
  from dg(8) obtain c2 where c2: "digit_val d2 = Some c2" "0 \<le> c2" "c2 \<le> 9" "d2 \<noteq> CHR ''-''" by (rule is_digitE)
  have sp: "split CHR ''-'' s = [y1, y2, y3, y4] # [m1, m2] # [d1, d2] # []"
    using a1(4) a2(4) a3(4) a4(4) b1(4) b2(4) c1(4) c2(4) by (simp add: s)
  have ny: "Number [y1, y2, y3, y4] = Some (10 * (10 * (10 * a1 + a2) + a3) + a4)"
    using a1(1) a2(1) a3(1) a4(1) by (simp add: Number_def)
  have nm: "Number [m1, m2] = Some (10 * b1 + b2)"
    using b1(1) b2(1) by (simp add: Number_def)
  have nd: "Number [d1, d2] = Some (10 * c1 + c2)"
    using c1(1) c2(1) by (simp add: Number_def)
  have "0 \<le> 10 * (10 * (10 * a1 + a2) + a3) + a4 \<and> 10 * (10 * (10 * a1 + a2) + a3) + a4 \<le> 9999"
    using a1(2,3) a2(2,3) a3(2,3) a4(2,3) by simp
  moreover have "0 \<le> 10 * b1 + b2 \<and> 10 * b1 + b2 \<le> 99" using b1(2,3) b2(2,3) by simp
  moreover have "0 \<le> 10 * c1 + c2 \<and> 10 * c1 + c2 \<le> 99" using c1(2,3) c2(2,3) by simp
  ultimately show ?thesis unfolding sp using ny nm nd by simp
qed


lemma localMidnight_civilDay:
  "localMidnight tz s =
     (case civilDay s of None \<Rightarrow> None
      | Some k \<Rightarrow> if \<bar>k * msPerDay - tz (k * msPerDay)\<bar> \<le> 8640000000000000
                  then Some (k * msPerDay - tz (k * msPerDay)) else None)"
  by (simp add: localMidnight_def civilDay_def newDate_def Let_def num_sub_def
           split: option.splits)

lemma civilDay_isoDate:
  assumes "isoDate s"
  shows "\<exists>k. civilDay s = Some k \<and> \<bar>k\<bar> \<le> 4000000"
proof -
  from isoDate_parts[OF assms] obtain y m d where
    parts: "map Number (split CHR ''-'' s) = [Some y, Some m, Some d]" and
    b: "0 \<le> y" "y \<le> 9999" "0 \<le> m" "m \<le> 99" "0 \<le> d" "d \<le> 99"
    by auto
  define yr where "yr = (if 0 \<le> y \<and> y \<le> 99 then 1900 + y else y)"
  have yr: "100 \<le> yr" "yr \<le> 9999" using b(1,2) by (auto simp: yr_def)
  have "civilDay s = Some (makeDay yr (m - 1) d)"
    by (simp add: civilDay_def parts at_index_def yr_def)
  moreover have "\<bar>makeDay yr (m - 1) d\<bar> \<le> 4000000"
    using yr b(3-6) by (intro makeDay_bounds) simp_all
  ultimately show ?thesis by simp
qed

lemma localMidnight_isoDate:
  assumes "isoDate s" and "plausibleZone tz"
  shows "\<exists>k. civilDay s = Some k
           \<and> localMidnight tz s = Some (k * msPerDay - tz (k * msPerDay))"
proof -
  from civilDay_isoDate[OF assms(1)] obtain k where k: "civilDay s = Some k" "\<bar>k\<bar> \<le> 4000000"
    by blast
  have "\<bar>tz (k * msPerDay)\<bar> \<le> 86400000"
    using assms(2) by (simp add: plausibleZone_def msPerDay_def)
  moreover have "\<bar>k * msPerDay\<bar> \<le> 4000000 * 86400000"
    using k(2) by (simp add: msPerDay_def abs_mult)
  ultimately have "\<bar>k * msPerDay - tz (k * msPerDay)\<bar> \<le> 8640000000000000" by linarith
  then show ?thesis using k(1) by (simp add: localMidnight_civilDay)
qed

lemma diffDays_isoDate:
  assumes "isoDate (cycleStartDate staff)" and "isoDate d" and "plausibleZone tz"
  shows "\<exists>kc kt. civilDay (cycleStartDate staff) = Some kc \<and> civilDay d = Some kt
           \<and> diffDays tz staff d =
               Some ((kt * msPerDay - tz (kt * msPerDay)
                        - (kc * msPerDay - tz (kc * msPerDay))) div msPerDay)"
proof -
  from localMidnight_isoDate[OF assms(1,3)] obtain kc where
    kc: "civilDay (cycleStartDate staff) = Some kc"
        "localMidnight tz (cycleStartDate staff) = Some (kc * msPerDay - tz (kc * msPerDay))"
    by blast
  from localMidnight_isoDate[OF assms(2,3)] obtain kt where
    kt: "civilDay d = Some kt"
        "localMidnight tz d = Some (kt * msPerDay - tz (kt * msPerDay))"
    by blast
  have "diffDays tz staff d =
          Some ((kt * msPerDay - tz (kt * msPerDay)
                   - (kc * msPerDay - tz (kc * msPerDay))) div msPerDay)"
    by (simp add: diffDays_def kc(2) kt(2) msPerDay_def)
  with kc(1) kt(1) show ?thesis by blast
qed

lemma plausibleZone_fixedOffset: "\<bar>off\<bar> \<le> msPerDay \<Longrightarrow> plausibleZone (fixedOffset off)"
  by (simp add: plausibleZone_def fixedOffset_def)

lemma diffDays_fixedOffset:
  assumes "isoDate (cycleStartDate staff)" and "isoDate d" and "\<bar>off\<bar> \<le> msPerDay"
  shows "\<exists>kc kt. civilDay (cycleStartDate staff) = Some kc \<and> civilDay d = Some kt
           \<and> diffDays (fixedOffset off) staff d = Some (kt - kc)"
proof -
  from diffDays_isoDate[OF assms(1,2) plausibleZone_fixedOffset[OF assms(3)]]
  obtain kc kt where
    k: "civilDay (cycleStartDate staff) = Some kc" "civilDay d = Some kt" and
    dd: "diffDays (fixedOffset off) staff d =
          Some ((kt * msPerDay - fixedOffset off (kt * msPerDay)
                   - (kc * msPerDay - fixedOffset off (kc * msPerDay))) div msPerDay)"
    by blast
  have "kt * msPerDay - fixedOffset off (kt * msPerDay)
          - (kc * msPerDay - fixedOffset off (kc * msPerDay)) = (kt - kc) * msPerDay"
    by (simp add: fixedOffset_def algebra_simps)
  then have "diffDays (fixedOffset off) staff d = Some (kt - kc)"
    using dd by (simp add: msPerDay_def)
  with k show ?thesis by blast
qed

text \<open>
  In general the day difference is the number of calendar days between the two dates exactly
  when the offset at the target's midnight is not above the offset at the start's midnight
  (and less than a day below it).
\<close>

lemma diffDays_calendar_iff:
  assumes "isoDate (cycleStartDate staff)" and "isoDate d" and "plausibleZone tz"
  shows "\<exists>kc kt. civilDay (cycleStartDate staff) = Some kc \<and> civilDay d = Some kt
           \<and> (diffDays tz staff d = Some (kt - kc)
                \<longleftrightarrow> tz (kt * msPerDay) \<le> tz (kc * msPerDay)
                    \<and> tz (kc * msPerDay) - tz (kt * msPerDay) < msPerDay)"
proof -
  from diffDays_isoDate[OF assms] obtain kc kt where
    k: "civilDay (cycleStartDate staff) = Some kc" "civilDay d = Some kt" and
    dd: "diffDays tz staff d =
          Some ((kt * msPerDay - tz (kt * msPerDay)
                   - (kc * msPerDay - tz (kc * msPerDay))) div msPerDay)"
    by blast
  define r where "r = tz (kc * msPerDay) - tz (kt * msPerDay)"
  have pos: "0 < msPerDay" by (simp add: msPerDay_def)
  have "kt * msPerDay - tz (kt * msPerDay) - (kc * msPerDay - tz (kc * msPerDay))
          = r + (kt - kc) * msPerDay"
    by (simp add: r_def algebra_simps)
  then have "diffDays tz staff d = Some (r div msPerDay + (kt - kc))"
    using dd pos by simp
  moreover have "r div msPerDay = 0 \<longleftrightarrow> 0 \<le> r \<and> r < msPerDay"
  proof
    assume z: "r div msPerDay = 0"
    have "r = msPerDay * (r div msPerDay) + r mod msPerDay" by simp
    with z have "r = r mod msPerDay" by simp
    moreover have "0 \<le> r mod msPerDay" "r mod msPerDay < msPerDay" using pos by simp_all
    ultimately show "0 \<le> r \<and> r < msPerDay" by simp
  next
    assume "0 \<le> r \<and> r < msPerDay"
    then show "r div msPerDay = 0" by simp
  qed
  ultimately have "diffDays tz staff d = Some (kt - kc) \<longleftrightarrow> 0 \<le> r \<and> r < msPerDay"
    by simp
  then show ?thesis using k unfolding r_def by auto
qed

section \<open>Facts about the pattern and the override lookup\<close>

lemma isStaffWorking_pattern:
  assumes "diffDays tz staff d = Some k" and "1 \<le> patternOn staff + patternOff staff"
  shows "dayInCycle tz staff d = Some (k mod (patternOn staff + patternOff staff))
         \<and> 0 \<le> k mod (patternOn staff + patternOff staff)
         \<and> k mod (patternOn staff + patternOff staff) < patternOn staff + patternOff staff
         \<and> isStaffWorking tz staff d = (k mod (patternOn staff + patternOff staff) < patternOn staff)"
  using assms by (simp add: isStaffWorking_def dayInCycle_Some)

text \<open>At a host with a constant offset the calculator follows the calendar.\<close>

lemma isStaffWorking_fixedOffset:
  assumes "isoDate (cycleStartDate staff)" and "isoDate d" and "\<bar>off\<bar> \<le> msPerDay"
    and "1 \<le> patternOn staff + patternOff staff"
  shows "\<exists>kc kt. civilDay (cycleStartDate staff) = Some kc \<and> civilDay d = Some kt
           \<and> diffDays (fixedOffset off) staff d = Some (kt - kc)
           \<and> dayInCycle (fixedOffset off) staff d
                = Some ((kt - kc) mod (patternOn staff + patternOff staff))
           \<and> isStaffWorking (fixedOffset off) staff d
                = ((kt - kc) mod (patternOn staff + patternOff staff) < patternOn staff)"
proof -
  from diffDays_fixedOffset[OF assms(1,2,3)] obtain kc kt where
    k: "civilDay (cycleStartDate staff) = Some kc" "civilDay d = Some kt"
       "diffDays (fixedOffset off) staff d = Some (kt - kc)"
    by blast
  from isStaffWorking_pattern[OF k(3) assms(4)] k show ?thesis by blast
qed

lemma isStaffWorking_cong:
  assumes "cycleStartDate a = cycleStartDate b" "patternOn a = patternOn b"
    "patternOff a = patternOff b"
  shows "isStaffWorking tz a d = isStaffWorking tz b d"
  using assms by (simp add: isStaffWorking_def dayInCycle_def diffDays_def)

lemma isStaffWorking_overrides [simp]:
  "isStaffWorking tz (p\<lparr>overrides := x\<rparr>) d = isStaffWorking tz p d"
  by (simp add: isStaffWorking_def dayInCycle_def diffDays_def)

lemma findOverride_unique:
  assumes "overrides staff = Some ovs" and "ov \<in> set ovs" and "ov_date ov = d"
    and "\<forall>a \<in> set ovs. \<forall>b \<in> set ovs. ov_date a = ov_date b \<longrightarrow> a = b"
  shows "findOverride staff d = Some ov"
proof -
  from assms(2,3) obtain r where r: "find (\<lambda>ov. ov_date ov = d) ovs = Some r"
    by (cases "find (\<lambda>ov. ov_date ov = d) ovs") (auto simp: find_None_iff)
  then have "r \<in> set ovs" "ov_date r = d"
    by (auto simp: find_Some_iff)
  with assms(2,3,4) have "r = ov" by blast
  with r show ?thesis by (simp add: findOverride_def assms(1))
qed

lemma findOverride_None_iff:
  "findOverride p d = None \<longleftrightarrow>
     (\<forall>ov \<in> set (case overrides p of None \<Rightarrow> [] | Some ovs \<Rightarrow> ovs). ov_date ov \<noteq> d)"
  by (cases "overrides p") (auto simp: findOverride_def find_None_iff)

lemma find_append_miss:
  "\<forall>x \<in> set xs. \<not> P x \<Longrightarrow> find P (xs @ ys) = find P ys"
  by (induction xs) simp_all

lemma findOverride_written:
  assumes "\<forall>ov \<in> set kept. ov_date ov \<noteq> d"
  shows "findOverride (p\<lparr>overrides := Some (kept @ ws)\<rparr>) d = find (\<lambda>ov. ov_date ov = d) ws"
  using assms by (simp add: findOverride_def find_append_miss)

lemma calculateShiftState_dayOff:
  "findOverride p (fullDateStr day) = Some (dayOffOverride (fullDateStr day)) \<Longrightarrow>
     calculateShiftState tz p day =
       \<lparr>isWorking = False, st_shiftType = Off, visualType = Dash, label = ''Day Off (Manual)''\<rparr>"
  by (simp add: calculateShiftState_def truthy_bool_def dayOffOverride_def)

lemma calculateShiftState_half:
  "findOverride p (fullDateStr day) = Some (halfOverride (fullDateStr day)) \<Longrightarrow>
     calculateShiftState tz p day =
       \<lparr>isWorking = True, st_shiftType = Shift Half, visualType = Hollow,
        label = ''Half Shift (Manual)''\<rparr>"
  by (simp add: calculateShiftState_def truthy_bool_def halfOverride_def)

lemma calculateShiftState_normal:
  "findOverride p (fullDateStr day) = Some (normalOverride (fullDateStr day)) \<Longrightarrow>
     calculateShiftState tz p day =
       \<lparr>isWorking = True, st_shiftType = Shift Normal, visualType = Solid,
        label = ''Normal Shift (Manual)''\<rparr>"
  by (simp add: calculateShiftState_def truthy_bool_def normalOverride_def)

lemma calculateShiftState_no_override:
  "findOverride p (fullDateStr day) = None \<Longrightarrow>
     calculateShiftState tz p day =
       (if isStaffWorking tz p (fullDateStr day)
        then \<lparr>isWorking = True, st_shiftType = Shift Normal, visualType = Solid,
              label = ''Normal Shift''\<rparr>
        else \<lparr>isWorking = False, st_shiftType = Off, visualType = Dash, label = ''Off''\<rparr>)"
  by (simp add: calculateShiftState_def truthy_bool_def)

section \<open>Facts about the quick cycle\<close>

lemma findIndex_none: "\<forall>x \<in> set xs. \<not> P x \<Longrightarrow> findIndex P xs = - 1"
  by (induction xs) simp_all

lemma findIndex_range: "- 1 \<le> findIndex P xs"
  by (induction xs) (simp_all add: Let_def)

lemma splice_findIndex:
  "(if 0 \<le> findIndex P xs then splice1 xs (findIndex P xs) else xs) = withoutFirst P xs"
proof (induction xs)
  case Nil
  show ?case by simp
next
  case (Cons x xs)
  show ?case
  proof (cases "P x")
    case True
    then show ?thesis by (simp add: splice1_def)
  next
    case False
    show ?thesis
    proof (cases "0 \<le> findIndex P xs")
      case True
      then have "nat (findIndex P xs + 1) = Suc (nat (findIndex P xs))" by simp
      with Cons True False show ?thesis by (simp add: splice1_def Let_def)
    next
      case no: False
      with Cons False show ?thesis by (simp add: Let_def)
    qed
  qed
qed

lemma withoutFirst_distinct:
  "distinct (map f xs) \<Longrightarrow> withoutFirst (\<lambda>x. f x = d) xs = filter (\<lambda>x. f x \<noteq> d) xs"
proof (induction xs)
  case Nil
  show ?case by simp
next
  case (Cons x xs)
  show ?case
  proof (cases "f x = d")
    case True
    with Cons.prems have "\<forall>y \<in> set xs. f y \<noteq> d" by (auto simp: image_iff)
    then have "filter (\<lambda>x. f x \<noteq> d) xs = xs" by (simp add: filter_id_conv)
    with True show ?thesis by simp
  next
    case False
    with Cons show ?thesis by simp
  qed
qed

lemma withoutFirst_none: "\<forall>x \<in> set xs. \<not> P x \<Longrightarrow> withoutFirst P xs = xs"
  by (induction xs) simp_all

lemma withoutFirst_append_hit:
  "\<forall>x \<in> set xs. \<not> P x \<Longrightarrow> P y \<Longrightarrow> withoutFirst P (xs @ [y]) = xs"
  by (induction xs) simp_all

lemma quickCycleStaff_overrides:
  "overrides (quickCycleStaff tz p day shiftState) =
     Some (withoutFirst (\<lambda>ov. ov_date ov = fullDateStr day)
             (case overrides p of None \<Rightarrow> [] | Some ovs \<Rightarrow> ovs)
           @ (case nextState shiftState of
                Off \<Rightarrow> [dayOffOverride (fullDateStr day)]
              | Shift Half \<Rightarrow> [halfOverride (fullDateStr day)]
              | Shift Normal \<Rightarrow>
                  if isStaffWorking tz p (fullDateStr day) then []
                  else [normalOverride (fullDateStr day)]))"
proof -
  define old where "old = (case overrides p of None \<Rightarrow> [] | Some ovs \<Rightarrow> ovs)"
  define P where "P = (\<lambda>ov::ShiftOverride. ov_date ov = fullDateStr day)"
  have sp: "(if 0 \<le> findIndex P old then splice1 old (findIndex P old) else old)
              = withoutFirst P old"
    by (rule splice_findIndex)
  show ?thesis
    unfolding quickCycleStaff_def Let_def old_def[symmetric] P_def[symmetric] sp
    by (cases "nextState shiftState" rule: ShiftTypeOrOff.exhaust[case_names Shift Off])
       (auto simp: dayOffOverride_def halfOverride_def normalOverride_def split: ShiftType.splits)
qed

lemma quickCycleStaff_fields:
  "quickCycleStaff tz p day shiftState
     = p\<lparr>overrides := overrides (quickCycleStaff tz p day shiftState)\<rparr>"
  by (simp add: quickCycleStaff_def Let_def)

lemma quickCycleStaff_eq:
  "quickCycleStaff tz p day shiftState =
     p\<lparr>overrides := Some (clearedOverrides p day
           @ (case nextState shiftState of
                Off \<Rightarrow> [dayOffOverride (fullDateStr day)]
              | Shift Half \<Rightarrow> [halfOverride (fullDateStr day)]
              | Shift Normal \<Rightarrow>
                  if isStaffWorking tz p (fullDateStr day) then []
                  else [normalOverride (fullDateStr day)]))\<rparr>"
  using quickCycleStaff_fields[of tz p day shiftState]
  by (simp add: quickCycleStaff_overrides clearedOverrides_def)

lemma clearedOverrides_distinct:
  assumes "distinct (map ov_date (case overrides p of None \<Rightarrow> [] | Some ovs \<Rightarrow> ovs))"
  shows "clearedOverrides p day =
           filter (\<lambda>ov. ov_date ov \<noteq> fullDateStr day)
             (case overrides p of None \<Rightarrow> [] | Some ovs \<Rightarrow> ovs)"
  unfolding clearedOverrides_def using assms by (rule withoutFirst_distinct)

lemma clearedOverrides_miss:
  assumes "\<forall>ov \<in> set kept. ov_date ov \<noteq> fullDateStr day"
  shows "clearedOverrides (p\<lparr>overrides := Some kept\<rparr>) day = kept"
  using assms by (simp add: clearedOverrides_def withoutFirst_none)

lemma clearedOverrides_hit:
  assumes "\<forall>ov \<in> set kept. ov_date ov \<noteq> fullDateStr day" and "ov_date w = fullDateStr day"
  shows "clearedOverrides (p\<lparr>overrides := Some (kept @ [w])\<rparr>) day = kept"
  using assms by (simp add: clearedOverrides_def withoutFirst_append_hit)

text \<open>The whole handler: nothing without a callback, and otherwise the callback on the staff
  list in which every member with the clicked id has gone through the cycle.\<close>

lemma handleQuickCycle_result:
  "handleQuickCycle tz staff None person day s = None"
  "handleQuickCycle tz staff (Some callback) person day s =
     Some (callback (map (\<lambda>q. if staff_id q = staff_id person
                                then quickCycleStaff tz q day s else q) staff))"
proof -
  have "(\<lambda>p. if staff_id p \<noteq> staff_id person then p else quickCycleStaff tz p day s)
      = (\<lambda>q. if staff_id q = staff_id person then quickCycleStaff tz q day s else q)"
    by (rule ext) simp
  then show "handleQuickCycle tz staff (Some callback) person day s =
     Some (callback (map (\<lambda>q. if staff_id q = staff_id person
                                then quickCycleStaff tz q day s else q) staff))"
    by (simp add: handleQuickCycle_def)
  show "handleQuickCycle tz staff None person day s = None"
    by (simp add: handleQuickCycle_def)
qed

lemma nextState_cases:
  "(st_shiftType s = Shift Normal \<and> isWorking s \<longrightarrow> nextState s = Shift Half)
   \<and> (st_shiftType s = Shift Half \<longrightarrow> nextState s = Off)
   \<and> (st_shiftType s = Off \<or> (\<not> isWorking s \<and> st_shiftType s \<noteq> Shift Half)
        \<longrightarrow> nextState s = Shift Normal)"
  by (simp add: nextState_def)

text \<open>With a callback that hands the new list back, the handler returns a list of the same
  length in which the clicked member has gone through the cycle, members with another id are
  untouched and every id is as before.\<close>

lemma quickCycleStaff_staff_id [simp]:
  "staff_id (quickCycleStaff tz p day s) = staff_id p"
  by (simp add: quickCycleStaff_def Let_def)

lemma handleQuickCycle_nth:
  assumes "i < length st"
  shows "\<exists>st'. handleQuickCycle tz st (Some (\<lambda>newStaff. newStaff)) (st ! i) day s = Some st'
           \<and> length st' = length st
           \<and> st' ! i = quickCycleStaff tz (st ! i) day s
           \<and> (\<forall>j < length st. staff_id (st ! j) \<noteq> staff_id (st ! i) \<longrightarrow> st' ! j = st ! j)
           \<and> (\<forall>j < length st. staff_id (st' ! j) = staff_id (st ! j))"
  using assms by (simp add: handleQuickCycle_def)

text \<open>The body of the handler's callback, case by case.\<close>

lemma quickCycleStaff_cases:
  "((st_shiftType s = Shift Normal \<and> isWorking s \<longrightarrow> nextState s = Shift Half)
     \<and> (st_shiftType s = Shift Half \<longrightarrow> nextState s = Off)
     \<and> (st_shiftType s = Off \<or> (\<not> isWorking s \<and> st_shiftType s \<noteq> Shift Half)
          \<longrightarrow> nextState s = Shift Normal))
   \<and> (nextState s = Off \<longrightarrow>
        quickCycleStaff tz p day s =
          p\<lparr>overrides := Some (clearedOverrides p day @ [dayOffOverride (fullDateStr day)])\<rparr>)
   \<and> (nextState s = Shift Half \<longrightarrow>
        quickCycleStaff tz p day s =
          p\<lparr>overrides := Some (clearedOverrides p day @ [halfOverride (fullDateStr day)])\<rparr>)
   \<and> (nextState s = Shift Normal \<and> isStaffWorking tz p (fullDateStr day) \<longrightarrow>
        quickCycleStaff tz p day s = p\<lparr>overrides := Some (clearedOverrides p day)\<rparr>)
   \<and> (nextState s = Shift Normal \<and> \<not> isStaffWorking tz p (fullDateStr day) \<longrightarrow>
        quickCycleStaff tz p day s =
          p\<lparr>overrides := Some (clearedOverrides p day @ [normalOverride (fullDateStr day)])\<rparr>)
   \<and> (distinct (map ov_date (case overrides p of None \<Rightarrow> [] | Some ovs \<Rightarrow> ovs)) \<longrightarrow>
        clearedOverrides p day =
          filter (\<lambda>ov. ov_date ov \<noteq> fullDateStr day)
            (case overrides p of None \<Rightarrow> [] | Some ovs \<Rightarrow> ovs)
        \<and> st_shiftType (calculateShiftState tz (quickCycleStaff tz p day s) day) = nextState s)"
proof -
  let ?d = "fullDateStr day"
  let ?old = "case overrides p of None \<Rightarrow> [] | Some ovs \<Rightarrow> ovs"
  have eq: "quickCycleStaff tz p day s =
     p\<lparr>overrides := Some (clearedOverrides p day
           @ (case nextState s of
                Off \<Rightarrow> [dayOffOverride ?d]
              | Shift Half \<Rightarrow> [halfOverride ?d]
              | Shift Normal \<Rightarrow>
                  if isStaffWorking tz p ?d then [] else [normalOverride ?d]))\<rparr>"
    by (rule quickCycleStaff_eq)
  have writes: "(nextState s = Off \<longrightarrow>
        quickCycleStaff tz p day s =
          p\<lparr>overrides := Some (clearedOverrides p day @ [dayOffOverride ?d])\<rparr>)
   \<and> (nextState s = Shift Half \<longrightarrow>
        quickCycleStaff tz p day s =
          p\<lparr>overrides := Some (clearedOverrides p day @ [halfOverride ?d])\<rparr>)
   \<and> (nextState s = Shift Normal \<and> isStaffWorking tz p ?d \<longrightarrow>
        quickCycleStaff tz p day s = p\<lparr>overrides := Some (clearedOverrides p day)\<rparr>)
   \<and> (nextState s = Shift Normal \<and> \<not> isStaffWorking tz p ?d \<longrightarrow>
        quickCycleStaff tz p day s =
          p\<lparr>overrides := Some (clearedOverrides p day @ [normalOverride ?d])\<rparr>)"
    by (simp add: eq)
  have single: "clearedOverrides p day = filter (\<lambda>ov. ov_date ov \<noteq> ?d) ?old
        \<and> st_shiftType (calculateShiftState tz (quickCycleStaff tz p day s) day) = nextState s"
    if dist: "distinct (map ov_date ?old)"
  proof -
    have c: "clearedOverrides p day = filter (\<lambda>ov. ov_date ov \<noteq> ?d) ?old"
      using dist by (rule clearedOverrides_distinct)
    then have miss: "\<forall>ov \<in> set (clearedOverrides p day). ov_date ov \<noteq> ?d" by simp
    have "st_shiftType (calculateShiftState tz (quickCycleStaff tz p day s) day) = nextState s"
    proof (cases "nextState s")
      case Off
      then have "findOverride (quickCycleStaff tz p day s) ?d = Some (dayOffOverride ?d)"
        by (simp add: eq findOverride_written[OF miss] dayOffOverride_def)
      then show ?thesis using Off by (simp add: calculateShiftState_dayOff)
    next
      case (Shift t)
      show ?thesis
      proof (cases t)
        case Half
        with Shift have "findOverride (quickCycleStaff tz p day s) ?d = Some (halfOverride ?d)"
          by (simp add: eq findOverride_written[OF miss] halfOverride_def)
        then show ?thesis using Shift Half by (simp add: calculateShiftState_half)
      next
        case Normal
        show ?thesis
        proof (cases "isStaffWorking tz p ?d")
          case True
          with Shift Normal have q: "quickCycleStaff tz p day s =
              p\<lparr>overrides := Some (clearedOverrides p day @ [])\<rparr>"
            by (simp add: eq)
          have "findOverride (p\<lparr>overrides := Some (clearedOverrides p day @ [])\<rparr>) ?d
                  = find (\<lambda>ov. ov_date ov = ?d) []"
            by (rule findOverride_written[OF miss])
          then have "findOverride (quickCycleStaff tz p day s) ?d = None"
            by (simp add: q)
          then show ?thesis using Shift Normal True q
            by (simp add: calculateShiftState_no_override)
        next
          case False
          with Shift Normal
          have "findOverride (quickCycleStaff tz p day s) ?d = Some (normalOverride ?d)"
            by (simp add: eq findOverride_written[OF miss] normalOverride_def)
          then show ?thesis using Shift Normal by (simp add: calculateShiftState_normal)
        qed
      qed
    qed
    with c show ?thesis by simp
  qed
  from nextState_cases[of s] writes single show ?thesis by blast
qed

text \<open>The three steps of the cycle on one staff member, each from the state that the grid
  computes for the cell.\<close>

lemma click_from_normal:
  assumes "findOverride p (fullDateStr day) = None"
    and "isStaffWorking tz p (fullDateStr day)"
  shows "quickCycleStaff tz p day (calculateShiftState tz p day) =
           p\<lparr>overrides := Some ((case overrides p of None \<Rightarrow> [] | Some ovs \<Rightarrow> ovs)
                                   @ [halfOverride (fullDateStr day)])\<rparr>"
proof -
  have miss: "\<forall>ov \<in> set (case overrides p of None \<Rightarrow> [] | Some ovs \<Rightarrow> ovs).
      ov_date ov \<noteq> fullDateStr day"
    using assms(1) by (simp add: findOverride_None_iff)
  then have c: "clearedOverrides p day = (case overrides p of None \<Rightarrow> [] | Some ovs \<Rightarrow> ovs)"
    by (simp add: clearedOverrides_def withoutFirst_none)
  show ?thesis
    using assms by (simp add: calculateShiftState_no_override quickCycleStaff_eq nextState_def c)
qed

lemma click_from_half:
  assumes "\<forall>ov \<in> set kept. ov_date ov \<noteq> fullDateStr day"
  shows "calculateShiftState tz (p\<lparr>overrides := Some (kept @ [halfOverride (fullDateStr day)])\<rparr>) day
           = \<lparr>isWorking = True, st_shiftType = Shift Half, visualType = Hollow,
              label = ''Half Shift (Manual)''\<rparr>"
    and "quickCycleStaff tz (p\<lparr>overrides := Some (kept @ [halfOverride (fullDateStr day)])\<rparr>) day
           (calculateShiftState tz
              (p\<lparr>overrides := Some (kept @ [halfOverride (fullDateStr day)])\<rparr>) day)
           = p\<lparr>overrides := Some (kept @ [dayOffOverride (fullDateStr day)])\<rparr>"
proof -
  let ?q = "p\<lparr>overrides := Some (kept @ [halfOverride (fullDateStr day)])\<rparr>"
  have f: "findOverride ?q (fullDateStr day) = Some (halfOverride (fullDateStr day))"
    by (simp add: findOverride_written[OF assms] halfOverride_def)
  then show s: "calculateShiftState tz ?q day
           = \<lparr>isWorking = True, st_shiftType = Shift Half, visualType = Hollow,
              label = ''Half Shift (Manual)''\<rparr>"
    by (rule calculateShiftState_half)
  have c: "clearedOverrides ?q day = kept"
    using assms by (rule clearedOverrides_hit) (simp add: halfOverride_def)
  show "quickCycleStaff tz ?q day (calculateShiftState tz ?q day)
           = p\<lparr>overrides := Some (kept @ [dayOffOverride (fullDateStr day)])\<rparr>"
    by (simp add: s quickCycleStaff_eq nextState_def c)
qed

lemma click_from_off:
  assumes "\<forall>ov \<in> set kept. ov_date ov \<noteq> fullDateStr day"
    and "isStaffWorking tz p (fullDateStr day)"
  shows "calculateShiftState tz (p\<lparr>overrides := Some (kept @ [dayOffOverride (fullDateStr day)])\<rparr>) day
           = \<lparr>isWorking = False, st_shiftType = Off, visualType = Dash,
              label = ''Day Off (Manual)''\<rparr>"
    and "quickCycleStaff tz (p\<lparr>overrides := Some (kept @ [dayOffOverride (fullDateStr day)])\<rparr>) day
           (calculateShiftState tz
              (p\<lparr>overrides := Some (kept @ [dayOffOverride (fullDateStr day)])\<rparr>) day)
           = p\<lparr>overrides := Some kept\<rparr>"
    and "findOverride (p\<lparr>overrides := Some kept\<rparr>) (fullDateStr day) = None"
    and "calculateShiftState tz (p\<lparr>overrides := Some kept\<rparr>) day
           = \<lparr>isWorking = True, st_shiftType = Shift Normal, visualType = Solid,
              label = ''Normal Shift''\<rparr>"
proof -
  let ?q = "p\<lparr>overrides := Some (kept @ [dayOffOverride (fullDateStr day)])\<rparr>"
  have f: "findOverride ?q (fullDateStr day) = Some (dayOffOverride (fullDateStr day))"
    by (simp add: findOverride_written[OF assms(1)] dayOffOverride_def)
  then show s: "calculateShiftState tz ?q day
           = \<lparr>isWorking = False, st_shiftType = Off, visualType = Dash,
              label = ''Day Off (Manual)''\<rparr>"
    by (rule calculateShiftState_dayOff)
  have c: "clearedOverrides ?q day = kept"
    using assms(1) by (rule clearedOverrides_hit) (simp add: dayOffOverride_def)
  show "quickCycleStaff tz ?q day (calculateShiftState tz ?q day) = p\<lparr>overrides := Some kept\<rparr>"
    using assms(2) by (simp add: s quickCycleStaff_eq nextState_def c)
  show n: "findOverride (p\<lparr>overrides := Some kept\<rparr>) (fullDateStr day) = None"
    using assms(1) by (simp add: findOverride_None_iff)
  show "calculateShiftState tz (p\<lparr>overrides := Some kept\<rparr>) day
           = \<lparr>isWorking = True, st_shiftType = Shift Normal, visualType = Solid,
              label = ''Normal Shift''\<rparr>"
    using n assms(2) by (simp add: calculateShiftState_no_override)
qed

section \<open>Example evaluations\<close>

lemma example_working:
  "isStaffWorking (fixedOffset 7200000) (exampleStaff ''2024-01-01'' 5 2 None) ''2024-01-03''"
  by code_simp

lemma example_not_working:
  "\<not> isStaffWorking (fixedOffset 7200000) (exampleStaff ''2024-01-01'' 5 2 None) ''2024-01-06''"
  by code_simp

section \<open>Overrides before the pattern\<close>





section \<open>Shift times\<close>



section \<open>Shape of the computed state\<close>

text \<open>
  Claim C9. Every computed shift state is coherent: it is working exactly when its shift type
  is not \<^verbatim>\<open>Off\<close>; its visual type is \<^verbatim>\<open>Dash\<close> exactly when it is not working,
  \<^verbatim>\<open>Hollow\<close> exactly when the shift type is \<^verbatim>\<open>Half\<close>, \<^verbatim>\<open>Solid\<close> exactly when it is
  working with the shift type \<^verbatim>\<open>Normal\<close>; and its visual type is never \<^verbatim>\<open>None\<close>.
\<close>

theorem calculateShiftState_coherent:
  "(isWorking (calculateShiftState tz staff day)
      \<longleftrightarrow> st_shiftType (calculateShiftState tz staff day) \<noteq> Off)
   \<and> (visualType (calculateShiftState tz staff day) = Dash
      \<longleftrightarrow> \<not> isWorking (calculateShiftState tz staff day))
   \<and> (visualType (calculateShiftState tz staff day) = Hollow
      \<longleftrightarrow> st_shiftType (calculateShiftState tz staff day) = Shift Half)
   \<and> (visualType (calculateShiftState tz staff day) = Solid
      \<longleftrightarrow> isWorking (calculateShiftState tz staff day)
          \<and> st_shiftType (calculateShiftState tz staff day) = Shift Normal)
   \<and> visualType (calculateShiftState tz staff day) \<noteq> None_visual"
  by (simp add: calculateShiftState_def Let_def)

theorem calculateShiftState_coherent_witness:
  "isWorking (calculateShiftState (fixedOffset 7200000)
      (exampleStaff ''2024-01-01'' 5 2 (Some [halfOverride ''2024-01-06'']))
      (exampleDay ''2024-01-06''))
   \<and> visualType (calculateShiftState (fixedOffset 7200000)
      (exampleStaff ''2024-01-01'' 5 2 (Some [halfOverride ''2024-01-06'']))
      (exampleDay ''2024-01-06'')) \<noteq> None_visual"
proof -
  have "st_shiftType (calculateShiftState (fixedOffset 7200000)
      (exampleStaff ''2024-01-01'' 5 2 (Some [halfOverride ''2024-01-06'']))
      (exampleDay ''2024-01-06'')) \<noteq> Off"
    by (simp add: calculateShiftState_def findOverride_def exampleStaff_def exampleDay_def
          halfOverride_def truthy_bool_def)
  with calculateShiftState_coherent[where tz = "fixedOffset 7200000"
      and staff = "exampleStaff ''2024-01-01'' 5 2 (Some [halfOverride ''2024-01-06''])"
      and day = "exampleDay ''2024-01-06''"]
  show ?thesis by blast
qed

text \<open>
  Claim C10. The computed shift state does not depend on the default shift type or on the
  employment status of the staff member: changing these two fields to any values leaves it
  unchanged. In particular a staff member whose default shift type is \<^verbatim>\<open>Half\<close>, with no
  override for the day, has a \<^verbatim>\<open>Normal\<close> working state on a working day of the pattern.
\<close>

theorem calculateShiftState_ignores_defaults:
  "calculateShiftState tz (staff\<lparr>shiftType := t, status := e\<rparr>) day
     = calculateShiftState tz staff day
   \<and> (shiftType staff = Half \<and> findOverride staff (fullDateStr day) = None
        \<and> isStaffWorking tz staff (fullDateStr day) \<longrightarrow>
      calculateShiftState tz staff day =
        \<lparr>isWorking = True, st_shiftType = Shift Normal, visualType = Solid,
         label = ''Normal Shift''\<rparr>)"
proof -
  have w: "isStaffWorking tz (staff\<lparr>shiftType := t, status := e\<rparr>) (fullDateStr day)
             = isStaffWorking tz staff (fullDateStr day)"
    by (rule isStaffWorking_cong) simp_all
  have f: "findOverride (staff\<lparr>shiftType := t, status := e\<rparr>) (fullDateStr day)
             = findOverride staff (fullDateStr day)"
    by (simp add: findOverride_def)
  have "calculateShiftState tz (staff\<lparr>shiftType := t, status := e\<rparr>) day
          = calculateShiftState tz staff day"
    unfolding calculateShiftState_def w f ..
  moreover have "findOverride staff (fullDateStr day) = None
        \<and> isStaffWorking tz staff (fullDateStr day) \<longrightarrow>
      calculateShiftState tz staff day =
        \<lparr>isWorking = True, st_shiftType = Shift Normal, visualType = Solid,
         label = ''Normal Shift''\<rparr>"
    by (simp add: calculateShiftState_def truthy_bool_def)
  ultimately show ?thesis by blast
qed

theorem calculateShiftState_ignores_defaults_witness:
  "calculateShiftState (fixedOffset 7200000)
      ((exampleStaff ''2024-01-01'' 5 2 None)\<lparr>shiftType := Half, status := Casual\<rparr>)
      (exampleDay ''2024-01-03'')
     = calculateShiftState (fixedOffset 7200000) (exampleStaff ''2024-01-01'' 5 2 None)
         (exampleDay ''2024-01-03'')
   \<and> shiftType ((exampleStaff ''2024-01-01'' 5 2 None)\<lparr>shiftType := Half\<rparr>) = Half
   \<and> calculateShiftState (fixedOffset 7200000)
      ((exampleStaff ''2024-01-01'' 5 2 None)\<lparr>shiftType := Half\<rparr>)
      (exampleDay ''2024-01-03'')
     = \<lparr>isWorking = True, st_shiftType = Shift Normal, visualType = Solid,
        label = ''Normal Shift''\<rparr>"
proof -
  let ?h = "(exampleStaff ''2024-01-01'' 5 2 None)\<lparr>shiftType := Half\<rparr>"
  have s: "shiftType ?h = Half" by simp
  have f: "findOverride ?h (fullDateStr (exampleDay ''2024-01-03'')) = None"
    by (simp add: findOverride_def exampleStaff_def)
  have "isStaffWorking (fixedOffset 7200000) ?h ''2024-01-03'' =
      isStaffWorking (fixedOffset 7200000) (exampleStaff ''2024-01-01'' 5 2 None) ''2024-01-03''"
    by (rule isStaffWorking_cong) simp_all
  with example_working
  have w: "isStaffWorking (fixedOffset 7200000) ?h (fullDateStr (exampleDay ''2024-01-03''))"
    by (simp add: exampleDay_def)
  from calculateShiftState_ignores_defaults[where tz = "fixedOffset 7200000"
      and staff = "exampleStaff ''2024-01-01'' 5 2 None" and t = Half and e = Casual
      and day = "exampleDay ''2024-01-03''"]
  have a: "calculateShiftState (fixedOffset 7200000)
      ((exampleStaff ''2024-01-01'' 5 2 None)\<lparr>shiftType := Half, status := Casual\<rparr>)
      (exampleDay ''2024-01-03'')
     = calculateShiftState (fixedOffset 7200000) (exampleStaff ''2024-01-01'' 5 2 None)
         (exampleDay ''2024-01-03'')"
    by (rule conjunct1)
  from calculateShiftState_ignores_defaults[where tz = "fixedOffset 7200000"
      and staff = ?h and t = Half and e = Casual and day = "exampleDay ''2024-01-03''"] s f w
  have b: "calculateShiftState (fixedOffset 7200000) ?h (exampleDay ''2024-01-03'')
     = \<lparr>isWorking = True, st_shiftType = Shift Normal, visualType = Solid,
        label = ''Normal Shift''\<rparr>"
    by blast
  from a s b show ?thesis by blast
qed

section \<open>The day difference across a change of offset\<close>

text \<open>
  Claim C1, at a host in the eastern time zone of the United States. The cycle starts on
  2024-03-09 with two days on and one day off, and the target is 2024-03-11, two calendar days
  later, so the third day of the cycle, a day off. Daylight saving time begins between the two
  midnights, which are therefore 47 hours apart: \<open>diffDays\<close> is 1, \<open>dayInCycle\<close> is 1 and
  \<open>isStaffWorking\<close> answers that the day is worked. At a host with a constant offset the
  answer is that it is not.
\<close>

theorem isStaffWorking_daylight_saving:
  "civilDay ''2024-03-09'' = Some 19791 \<and> civilDay ''2024-03-11'' = Some 19793
   \<and> diffDays usEastern2024 (exampleStaff ''2024-03-09'' 2 1 None) ''2024-03-11'' = Some 1
   \<and> dayInCycle usEastern2024 (exampleStaff ''2024-03-09'' 2 1 None) ''2024-03-11'' = Some 1
   \<and> isStaffWorking usEastern2024 (exampleStaff ''2024-03-09'' 2 1 None) ''2024-03-11''
   \<and> \<not> ((19793 - 19791) mod (2 + 1) < (2::int))
   \<and> \<not> isStaffWorking (fixedOffset 0) (exampleStaff ''2024-03-09'' 2 1 None) ''2024-03-11''"
  by code_simp

section \<open>The quick cycle\<close>

text \<open>
  Claim C4. Without a callback \<open>handleQuickCycle\<close> does nothing. It advances a working
  \<^verbatim>\<open>Normal\<close> state to \<^verbatim>\<open>Half\<close>, a \<^verbatim>\<open>Half\<close> state to \<^verbatim>\<open>Off\<close>, and an \<^verbatim>\<open>Off\<close> or
  not-working state to \<^verbatim>\<open>Normal\<close>, and hands its callback the staff list in which every
  member with the clicked id has the entry for the day taken out of the overrides and, after
  it: the day-off record when advancing to \<^verbatim>\<open>Off\<close>; the half-shift record with the times
  08:00 and 13:00 when advancing to \<^verbatim>\<open>Half\<close>; nothing when advancing to \<^verbatim>\<open>Normal\<close> on a
  working day of the pattern, and the normal-shift record on an off day of the pattern. All
  other fields and all other members are as they were. When the dates of a member's overrides are
  unique, taking the entry out leaves no entry for the day, and the state computed for the
  member in the new list has the shift type that the cycle advanced to.
\<close>

theorem handleQuickCycle_writes_override:
  "handleQuickCycle tz staff None person day s = None
   \<and> (st_shiftType s = Shift Normal \<and> isWorking s \<longrightarrow> nextState s = Shift Half)
   \<and> (st_shiftType s = Shift Half \<longrightarrow> nextState s = Off)
   \<and> (st_shiftType s = Off \<or> (\<not> isWorking s \<and> st_shiftType s \<noteq> Shift Half)
        \<longrightarrow> nextState s = Shift Normal)
   \<and> (nextState s = Off \<longrightarrow>
        handleQuickCycle tz staff (Some callback) person day s =
          Some (callback (map (\<lambda>q. if staff_id q = staff_id person
             then q\<lparr>overrides := Some (clearedOverrides q day
                                          @ [dayOffOverride (fullDateStr day)])\<rparr>
             else q) staff)))
   \<and> (nextState s = Shift Half \<longrightarrow>
        handleQuickCycle tz staff (Some callback) person day s =
          Some (callback (map (\<lambda>q. if staff_id q = staff_id person
             then q\<lparr>overrides := Some (clearedOverrides q day
                                          @ [halfOverride (fullDateStr day)])\<rparr>
             else q) staff)))
   \<and> (nextState s = Shift Normal \<longrightarrow>
        handleQuickCycle tz staff (Some callback) person day s =
          Some (callback (map (\<lambda>q. if staff_id q = staff_id person
             then q\<lparr>overrides := Some (clearedOverrides q day
                        @ (if isStaffWorking tz q (fullDateStr day) then []
                           else [normalOverride (fullDateStr day)]))\<rparr>
             else q) staff)))
   \<and> (distinct (map ov_date (case overrides p of None \<Rightarrow> [] | Some ovs \<Rightarrow> ovs)) \<longrightarrow>
        clearedOverrides p day =
          filter (\<lambda>ov. ov_date ov \<noteq> fullDateStr day)
            (case overrides p of None \<Rightarrow> [] | Some ovs \<Rightarrow> ovs))
   \<and> (\<forall>j < length staff.
        staff_id (staff ! j) = staff_id person
        \<and> distinct (map ov_date (case overrides (staff ! j) of None \<Rightarrow> [] | Some ovs \<Rightarrow> ovs))
        \<longrightarrow> (\<exists>staff'. handleQuickCycle tz staff (Some (\<lambda>newStaff. newStaff)) person day s
                         = Some staff'
                  \<and> st_shiftType (calculateShiftState tz (staff' ! j) day) = nextState s))"
proof -
  let ?d = "fullDateStr day"
  have none: "handleQuickCycle tz staff None person day s = None"
    by (simp add: handleQuickCycle_def)
  have handler: "handleQuickCycle tz staff (Some f) person day s =
      Some (f (map (\<lambda>q. if staff_id q = staff_id person
         then q\<lparr>overrides := Some (clearedOverrides q day
               @ (case nextState s of
                    Off \<Rightarrow> [dayOffOverride ?d]
                  | Shift Half \<Rightarrow> [halfOverride ?d]
                  | Shift Normal \<Rightarrow>
                      if isStaffWorking tz q ?d then [] else [normalOverride ?d]))\<rparr>
         else q) staff))" for f :: "StaffMember list \<Rightarrow> 'x"
    by (simp add: handleQuickCycle_result(2) quickCycleStaff_eq cong: if_cong)
  have off: "nextState s = Off \<longrightarrow>
        handleQuickCycle tz staff (Some callback) person day s =
          Some (callback (map (\<lambda>q. if staff_id q = staff_id person
             then q\<lparr>overrides := Some (clearedOverrides q day @ [dayOffOverride ?d])\<rparr>
             else q) staff))"
    by (simp add: handler cong: if_cong)
  have half: "nextState s = Shift Half \<longrightarrow>
        handleQuickCycle tz staff (Some callback) person day s =
          Some (callback (map (\<lambda>q. if staff_id q = staff_id person
             then q\<lparr>overrides := Some (clearedOverrides q day @ [halfOverride ?d])\<rparr>
             else q) staff))"
    by (simp add: handler cong: if_cong)
  have normal: "nextState s = Shift Normal \<longrightarrow>
        handleQuickCycle tz staff (Some callback) person day s =
          Some (callback (map (\<lambda>q. if staff_id q = staff_id person
             then q\<lparr>overrides := Some (clearedOverrides q day
                        @ (if isStaffWorking tz q ?d then [] else [normalOverride ?d]))\<rparr>
             else q) staff))"
    by (simp add: handler cong: if_cong)
  have cleared: "distinct (map ov_date (case overrides p of None \<Rightarrow> [] | Some ovs \<Rightarrow> ovs)) \<longrightarrow>
        clearedOverrides p day =
          filter (\<lambda>ov. ov_date ov \<noteq> ?d) (case overrides p of None \<Rightarrow> [] | Some ovs \<Rightarrow> ovs)"
    using clearedOverrides_distinct by blast
  have after: "\<forall>j < length staff.
        staff_id (staff ! j) = staff_id person
        \<and> distinct (map ov_date (case overrides (staff ! j) of None \<Rightarrow> [] | Some ovs \<Rightarrow> ovs))
        \<longrightarrow> (\<exists>staff'. handleQuickCycle tz staff (Some (\<lambda>newStaff. newStaff)) person day s
                         = Some staff'
                  \<and> st_shiftType (calculateShiftState tz (staff' ! j) day) = nextState s)"
  proof (intro allI impI)
    fix j
    assume j: "j < length staff"
      and h: "staff_id (staff ! j) = staff_id person
        \<and> distinct (map ov_date (case overrides (staff ! j) of None \<Rightarrow> [] | Some ovs \<Rightarrow> ovs))"
    let ?new = "map (\<lambda>q. if staff_id q = staff_id person
        then quickCycleStaff tz q day s else q) staff"
    have r: "handleQuickCycle tz staff (Some (\<lambda>newStaff. newStaff)) person day s = Some ?new"
      by (simp add: handleQuickCycle_result(2))
    have "?new ! j = quickCycleStaff tz (staff ! j) day s"
      using j h by simp
    moreover have "st_shiftType (calculateShiftState tz (quickCycleStaff tz (staff ! j) day s) day)
        = nextState s"
      using quickCycleStaff_cases[of s tz "staff ! j" day] h by blast
    ultimately show "\<exists>staff'. handleQuickCycle tz staff (Some (\<lambda>newStaff. newStaff)) person day s
                         = Some staff'
                  \<and> st_shiftType (calculateShiftState tz (staff' ! j) day) = nextState s"
      using r by simp
  qed
  from none nextState_cases[of s] off half normal cleared after show ?thesis by blast
qed

theorem handleQuickCycle_writes_override_witness:
  "handleQuickCycle (fixedOffset 7200000)
      [exampleStaff ''2024-01-01'' 5 2 None,
       (exampleStaff ''2024-02-01'' 3 4 None)\<lparr>staff_id := ''s2''\<rparr>]
      (None :: (StaffMember list \<Rightarrow> StaffMember list) option)
      (exampleStaff ''2024-01-01'' 5 2 None) (exampleDay ''2024-01-03'')
      \<lparr>isWorking = True, st_shiftType = Shift Normal, visualType = Solid,
       label = ''Normal Shift''\<rparr> = None
   \<and> nextState \<lparr>isWorking = True, st_shiftType = Shift Normal, visualType = Solid,
                label = ''Normal Shift''\<rparr> = Shift Half
   \<and> handleQuickCycle (fixedOffset 7200000)
      [exampleStaff ''2024-01-01'' 5 2 None,
       (exampleStaff ''2024-02-01'' 3 4 None)\<lparr>staff_id := ''s2''\<rparr>]
      (Some (\<lambda>newStaff. newStaff))
      (exampleStaff ''2024-01-01'' 5 2 None) (exampleDay ''2024-01-03'')
      \<lparr>isWorking = True, st_shiftType = Shift Normal, visualType = Solid,
       label = ''Normal Shift''\<rparr>
     = Some [(exampleStaff ''2024-01-01'' 5 2 None)
               \<lparr>overrides := Some [halfOverride ''2024-01-03'']\<rparr>,
             (exampleStaff ''2024-02-01'' 3 4 None)\<lparr>staff_id := ''s2''\<rparr>]
   \<and> nextState \<lparr>isWorking = True, st_shiftType = Shift Half, visualType = Hollow,
                label = ''Half Shift (Manual)''\<rparr> = Off
   \<and> handleQuickCycle (fixedOffset 7200000)
      [(exampleStaff ''2024-01-01'' 5 2 None)\<lparr>overrides := Some [halfOverride ''2024-01-03'']\<rparr>,
       (exampleStaff ''2024-02-01'' 3 4 None)\<lparr>staff_id := ''s2''\<rparr>]
      (Some (\<lambda>newStaff. newStaff))
      ((exampleStaff ''2024-01-01'' 5 2 None)\<lparr>overrides := Some [halfOverride ''2024-01-03'']\<rparr>)
      (exampleDay ''2024-01-03'')
      \<lparr>isWorking = True, st_shiftType = Shift Half, visualType = Hollow,
       label = ''Half Shift (Manual)''\<rparr>
     = Some [(exampleStaff ''2024-01-01'' 5 2 None)
               \<lparr>overrides := Some [dayOffOverride ''2024-01-03'']\<rparr>,
             (exampleStaff ''2024-02-01'' 3 4 None)\<lparr>staff_id := ''s2''\<rparr>]
   \<and> nextState \<lparr>isWorking = False, st_shiftType = Off, visualType = Dash,
                label = ''Day Off (Manual)''\<rparr> = Shift Normal
   \<and> handleQuickCycle (fixedOffset 7200000)
      [(exampleStaff ''2024-01-01'' 5 2 None)\<lparr>overrides := Some [dayOffOverride ''2024-01-03'']\<rparr>,
       (exampleStaff ''2024-02-01'' 3 4 None)\<lparr>staff_id := ''s2''\<rparr>]
      (Some (\<lambda>newStaff. newStaff))
      ((exampleStaff ''2024-01-01'' 5 2 None)\<lparr>overrides := Some [dayOffOverride ''2024-01-03'']\<rparr>)
      (exampleDay ''2024-01-03'')
      \<lparr>isWorking = False, st_shiftType = Off, visualType = Dash,
       label = ''Day Off (Manual)''\<rparr>
     = Some [(exampleStaff ''2024-01-01'' 5 2 None)\<lparr>overrides := Some []\<rparr>,
             (exampleStaff ''2024-02-01'' 3 4 None)\<lparr>staff_id := ''s2''\<rparr>]
   \<and> handleQuickCycle (fixedOffset 7200000)
      [exampleStaff ''2024-01-01'' 5 2 None,
       (exampleStaff ''2024-02-01'' 3 4 None)\<lparr>staff_id := ''s2''\<rparr>]
      (Some (\<lambda>newStaff. newStaff))
      (exampleStaff ''2024-01-01'' 5 2 None) (exampleDay ''2024-01-06'')
      \<lparr>isWorking = False, st_shiftType = Off, visualType = Dash, label = ''Off''\<rparr>
     = Some [(exampleStaff ''2024-01-01'' 5 2 None)
               \<lparr>overrides := Some [normalOverride ''2024-01-06'']\<rparr>,
             (exampleStaff ''2024-02-01'' 3 4 None)\<lparr>staff_id := ''s2''\<rparr>]
   \<and> st_shiftType (calculateShiftState (fixedOffset 7200000)
        ((exampleStaff ''2024-01-01'' 5 2 None)
           \<lparr>overrides := Some [normalOverride ''2024-01-06'']\<rparr>)
        (exampleDay ''2024-01-06'')) = Shift Normal"
proof -
  let ?tz = "fixedOffset 7200000"
  let ?p = "exampleStaff ''2024-01-01'' 5 2 None"
  let ?q = "(exampleStaff ''2024-02-01'' 3 4 None)\<lparr>staff_id := ''s2''\<rparr>"
  let ?pH = "?p\<lparr>overrides := Some [halfOverride ''2024-01-03'']\<rparr>"
  let ?pD = "?p\<lparr>overrides := Some [dayOffOverride ''2024-01-03'']\<rparr>"
  let ?d3 = "exampleDay ''2024-01-03''" and ?d6 = "exampleDay ''2024-01-06''"
  let ?sN = "\<lparr>isWorking = True, st_shiftType = Shift Normal, visualType = Solid,
              label = ''Normal Shift''\<rparr>"
  let ?sH = "\<lparr>isWorking = True, st_shiftType = Shift Half, visualType = Hollow,
              label = ''Half Shift (Manual)''\<rparr>"
  let ?sD = "\<lparr>isWorking = False, st_shiftType = Off, visualType = Dash,
              label = ''Day Off (Manual)''\<rparr>"
  let ?sO = "\<lparr>isWorking = False, st_shiftType = Off, visualType = Dash, label = ''Off''\<rparr>"
  let ?ret = "\<lambda>newStaff :: StaffMember list. newStaff"
  have ids: "staff_id ?p = ''s1''" "staff_id ?q = ''s2''"
    by (simp_all add: exampleStaff_def)
  have w3: "isStaffWorking ?tz ?p (fullDateStr ?d3)"
    using example_working by (simp add: exampleDay_def)
  have w6: "\<not> isStaffWorking ?tz ?p (fullDateStr ?d6)"
    using example_not_working by (simp add: exampleDay_def)
  have c0: "clearedOverrides ?p day = []" for day
    by (simp add: clearedOverrides_def exampleStaff_def)
  have c1: "clearedOverrides ?pH ?d3 = []"
    by (simp add: clearedOverrides_def halfOverride_def exampleDay_def)
  have c2: "clearedOverrides ?pD ?d3 = []"
    by (simp add: clearedOverrides_def dayOffOverride_def exampleDay_def)
  have dist: "distinct (map ov_date (case overrides ?p of None \<Rightarrow> [] | Some ovs \<Rightarrow> ovs))"
    by (simp add: exampleStaff_def)
  have f3: "fullDateStr ?d3 = ''2024-01-03''" and f6: "fullDateStr ?d6 = ''2024-01-06''"
    by (simp_all add: exampleDay_def)
  note tN = handleQuickCycle_writes_override[where s = ?sN and tz = ?tz and staff = "[?p, ?q]"
      and person = ?p and day = ?d3 and callback = ?ret and p = ?p]
  from tN have n0: "handleQuickCycle ?tz [?p, ?q]
      (None :: (StaffMember list \<Rightarrow> StaffMember list) option) ?p ?d3 ?sN = None"
    by (rule conjunct1)
  from tN[THEN conjunct2, THEN conjunct1] have nN: "nextState ?sN = Shift Half" by simp
  from tN[THEN conjunct2, THEN conjunct2, THEN conjunct2, THEN conjunct2, THEN conjunct2, THEN conjunct1] nN have qN: "handleQuickCycle ?tz [?p, ?q] (Some ?ret) ?p ?d3 ?sN = Some [?pH, ?q]"
    by (simp add: c0 f3 ids)
  note tH = handleQuickCycle_writes_override[where s = ?sH and tz = ?tz and staff = "[?pH, ?q]"
      and person = ?pH and day = ?d3 and callback = ?ret and p = ?p]
  from tH[THEN conjunct2, THEN conjunct2, THEN conjunct1] have nH: "nextState ?sH = Off" by simp
  from tH[THEN conjunct2, THEN conjunct2, THEN conjunct2, THEN conjunct2, THEN conjunct1] nH have qH: "handleQuickCycle ?tz [?pH, ?q] (Some ?ret) ?pH ?d3 ?sH = Some [?pD, ?q]"
    by (simp add: c1 f3 ids)
  note tD = handleQuickCycle_writes_override[where s = ?sD and tz = ?tz and staff = "[?pD, ?q]"
      and person = ?pD and day = ?d3 and callback = ?ret and p = ?p]
  from tD[THEN conjunct2, THEN conjunct2, THEN conjunct2, THEN conjunct1] have nD: "nextState ?sD = Shift Normal" by simp
  from tD[THEN conjunct2, THEN conjunct2, THEN conjunct2, THEN conjunct2, THEN conjunct2, THEN conjunct2, THEN conjunct1] nD w3 have qD: "handleQuickCycle ?tz [?pD, ?q] (Some ?ret) ?pD ?d3 ?sD
      = Some [?p\<lparr>overrides := Some []\<rparr>, ?q]"
    by (simp add: c2 ids)
  note tO = handleQuickCycle_writes_override[where s = ?sO and tz = ?tz and staff = "[?p, ?q]"
      and person = ?p and day = ?d6 and callback = ?ret and p = ?p]
  from tO[THEN conjunct2, THEN conjunct2, THEN conjunct2, THEN conjunct1] have nO: "nextState ?sO = Shift Normal" by simp
  from tO[THEN conjunct2, THEN conjunct2, THEN conjunct2, THEN conjunct2, THEN conjunct2, THEN conjunct2, THEN conjunct1] nO w6 have qO: "handleQuickCycle ?tz [?p, ?q] (Some ?ret) ?p ?d6 ?sO
      = Some [?p\<lparr>overrides := Some [normalOverride ''2024-01-06'']\<rparr>, ?q]"
    by (simp add: c0 f6 ids)
  from tO have "\<forall>j < length [?p, ?q].
        staff_id ([?p, ?q] ! j) = staff_id ?p
        \<and> distinct (map ov_date (case overrides ([?p, ?q] ! j) of None \<Rightarrow> [] | Some ovs \<Rightarrow> ovs))
        \<longrightarrow> (\<exists>staff'. handleQuickCycle ?tz [?p, ?q] (Some ?ret) ?p ?d6 ?sO = Some staff'
                  \<and> st_shiftType (calculateShiftState ?tz (staff' ! j) ?d6) = nextState ?sO)"
    by blast
  then have "\<exists>staff'. handleQuickCycle ?tz [?p, ?q] (Some ?ret) ?p ?d6 ?sO = Some staff'
      \<and> st_shiftType (calculateShiftState ?tz (staff' ! 0) ?d6) = nextState ?sO"
    using dist by (simp add: ids)
  then have rO: "st_shiftType (calculateShiftState ?tz
      (?p\<lparr>overrides := Some [normalOverride ''2024-01-06'']\<rparr>) ?d6) = Shift Normal"
    using qO nO by auto
  from n0 nN qN nH qH nD qD qO rO show ?thesis by blast
qed

text \<open>
  Claim C5. Let the grid hold a staff list, and let the member at position \<open>i\<close> have no
  override for the day, which the pattern makes a working day: the state of the cell is the
  natural \<^verbatim>\<open>Normal\<close> one. Three clicks in a row, each handing \<open>handleQuickCycle\<close> the state
  computed for the cell from the list that the click before handed to the callback, turn the
  cell to \<^verbatim>\<open>Half\<close>, then to \<^verbatim>\<open>Off\<close>, then back to the state before the first click, with
  no override left for the day: the member is as before, the override list being the one the
  clicks started from (the empty list where there was none), and the members with another id
  are untouched.
\<close>

theorem handleQuickCycle_three_clicks:
  assumes "i < length staff"
    and "findOverride (staff ! i) (fullDateStr day) = None"
    and "isStaffWorking tz (staff ! i) (fullDateStr day)"
  shows "calculateShiftState tz (staff ! i) day =
           \<lparr>isWorking = True, st_shiftType = Shift Normal, visualType = Solid,
            label = ''Normal Shift''\<rparr>
       \<and> (\<exists>staff1 staff2 staff3.
            handleQuickCycle tz staff (Some (\<lambda>newStaff. newStaff)) (staff ! i) day
              (calculateShiftState tz (staff ! i) day) = Some staff1
          \<and> calculateShiftState tz (staff1 ! i) day =
              \<lparr>isWorking = True, st_shiftType = Shift Half, visualType = Hollow,
               label = ''Half Shift (Manual)''\<rparr>
          \<and> handleQuickCycle tz staff1 (Some (\<lambda>newStaff. newStaff)) (staff1 ! i) day
              (calculateShiftState tz (staff1 ! i) day) = Some staff2
          \<and> calculateShiftState tz (staff2 ! i) day =
              \<lparr>isWorking = False, st_shiftType = Off, visualType = Dash,
               label = ''Day Off (Manual)''\<rparr>
          \<and> handleQuickCycle tz staff2 (Some (\<lambda>newStaff. newStaff)) (staff2 ! i) day
              (calculateShiftState tz (staff2 ! i) day) = Some staff3
          \<and> calculateShiftState tz (staff3 ! i) day = calculateShiftState tz (staff ! i) day
          \<and> findOverride (staff3 ! i) (fullDateStr day) = None
          \<and> staff3 ! i =
              (staff ! i)\<lparr>overrides :=
                 Some (case overrides (staff ! i) of None \<Rightarrow> [] | Some ovs \<Rightarrow> ovs)\<rparr>
          \<and> length staff3 = length staff
          \<and> (\<forall>j < length staff.
                staff_id (staff ! j) \<noteq> staff_id (staff ! i) \<longrightarrow> staff3 ! j = staff ! j))"
proof -
  let ?d = "fullDateStr day"
  let ?p = "staff ! i"
  define old where "old = (case overrides ?p of None \<Rightarrow> [] | Some ovs \<Rightarrow> ovs)"
  have miss: "\<forall>ov \<in> set old. ov_date ov \<noteq> ?d"
    using assms(2) by (simp add: findOverride_None_iff old_def)
  have s0: "calculateShiftState tz ?p day =
      \<lparr>isWorking = True, st_shiftType = Shift Normal, visualType = Solid,
       label = ''Normal Shift''\<rparr>"
    using assms(2,3) by (simp add: calculateShiftState_no_override)
  from handleQuickCycle_nth[OF assms(1), of tz day "calculateShiftState tz ?p day"]
  obtain staff1 where
    h1: "handleQuickCycle tz staff (Some (\<lambda>newStaff. newStaff)) ?p day
           (calculateShiftState tz ?p day) = Some staff1" and
    l1: "length staff1 = length staff" and
    n1: "staff1 ! i = quickCycleStaff tz ?p day (calculateShiftState tz ?p day)" and
    o1: "\<forall>j < length staff. staff_id (staff ! j) \<noteq> staff_id ?p \<longrightarrow> staff1 ! j = staff ! j" and
    d1: "\<forall>j < length staff. staff_id (staff1 ! j) = staff_id (staff ! j)"
    by blast
  have p1: "staff1 ! i = ?p\<lparr>overrides := Some (old @ [halfOverride ?d])\<rparr>"
    unfolding n1 old_def using assms(2,3) by (rule click_from_normal)
  have s1: "calculateShiftState tz (staff1 ! i) day =
      \<lparr>isWorking = True, st_shiftType = Shift Half, visualType = Hollow,
       label = ''Half Shift (Manual)''\<rparr>"
    unfolding p1 using miss by (rule click_from_half(1))
  have i1: "i < length staff1" using assms(1) l1 by simp
  from handleQuickCycle_nth[OF i1, of tz day "calculateShiftState tz (staff1 ! i) day"]
  obtain staff2 where
    h2: "handleQuickCycle tz staff1 (Some (\<lambda>newStaff. newStaff)) (staff1 ! i) day
           (calculateShiftState tz (staff1 ! i) day) = Some staff2" and
    l2: "length staff2 = length staff1" and
    n2: "staff2 ! i = quickCycleStaff tz (staff1 ! i) day (calculateShiftState tz (staff1 ! i) day)" and
    o2: "\<forall>j < length staff1. staff_id (staff1 ! j) \<noteq> staff_id (staff1 ! i) \<longrightarrow> staff2 ! j = staff1 ! j" and
    d2: "\<forall>j < length staff1. staff_id (staff2 ! j) = staff_id (staff1 ! j)"
    by blast
  have p2: "staff2 ! i = ?p\<lparr>overrides := Some (old @ [dayOffOverride ?d])\<rparr>"
    unfolding n2 p1 using miss by (rule click_from_half(2))
  have s2: "calculateShiftState tz (staff2 ! i) day =
      \<lparr>isWorking = False, st_shiftType = Off, visualType = Dash,
       label = ''Day Off (Manual)''\<rparr>"
    unfolding p2 using miss assms(3) by (rule click_from_off(1))
  have i2: "i < length staff2" using i1 l2 by simp
  from handleQuickCycle_nth[OF i2, of tz day "calculateShiftState tz (staff2 ! i) day"]
  obtain staff3 where
    h3: "handleQuickCycle tz staff2 (Some (\<lambda>newStaff. newStaff)) (staff2 ! i) day
           (calculateShiftState tz (staff2 ! i) day) = Some staff3" and
    l3: "length staff3 = length staff2" and
    n3: "staff3 ! i = quickCycleStaff tz (staff2 ! i) day (calculateShiftState tz (staff2 ! i) day)" and
    o3: "\<forall>j < length staff2. staff_id (staff2 ! j) \<noteq> staff_id (staff2 ! i) \<longrightarrow> staff3 ! j = staff2 ! j" and
    d3: "\<forall>j < length staff2. staff_id (staff3 ! j) = staff_id (staff2 ! j)"
    by blast
  have p3: "staff3 ! i = ?p\<lparr>overrides := Some old\<rparr>"
    unfolding n3 p2 using miss assms(3) by (rule click_from_off(2))
  have f3: "findOverride (staff3 ! i) ?d = None"
    unfolding p3 using miss assms(3) by (rule click_from_off(3))
  have "calculateShiftState tz (staff3 ! i) day =
      \<lparr>isWorking = True, st_shiftType = Shift Normal, visualType = Solid,
       label = ''Normal Shift''\<rparr>"
    unfolding p3 using miss assms(3) by (rule click_from_off(4))
  with s0 have s3: "calculateShiftState tz (staff3 ! i) day = calculateShiftState tz ?p day"
    by simp
  have l: "length staff3 = length staff" using l1 l2 l3 by simp
  have others: "\<forall>j < length staff. staff_id (staff ! j) \<noteq> staff_id ?p \<longrightarrow> staff3 ! j = staff ! j"
  proof (intro allI impI)
    fix j assume j: "j < length staff" and ne: "staff_id (staff ! j) \<noteq> staff_id ?p"
    have a: "staff1 ! j = staff ! j" using o1 j ne by blast
    have "staff_id (staff1 ! j) \<noteq> staff_id (staff1 ! i)"
      using d1 j assms(1) ne by simp
    then have b: "staff2 ! j = staff1 ! j" using o2 j l1 by simp
    have "staff_id (staff2 ! j) \<noteq> staff_id (staff2 ! i)"
      using d2 d1 j assms(1) l1 ne by simp
    then have "staff3 ! j = staff2 ! j" using o3 j l1 l2 by simp
    with a b show "staff3 ! j = staff ! j" by simp
  qed
  from h1 s1 h2 s2 h3 s3 f3 p3 l others
  have "\<exists>staff1 staff2 staff3.
            handleQuickCycle tz staff (Some (\<lambda>newStaff. newStaff)) ?p day
              (calculateShiftState tz ?p day) = Some staff1
          \<and> calculateShiftState tz (staff1 ! i) day =
              \<lparr>isWorking = True, st_shiftType = Shift Half, visualType = Hollow,
               label = ''Half Shift (Manual)''\<rparr>
          \<and> handleQuickCycle tz staff1 (Some (\<lambda>newStaff. newStaff)) (staff1 ! i) day
              (calculateShiftState tz (staff1 ! i) day) = Some staff2
          \<and> calculateShiftState tz (staff2 ! i) day =
              \<lparr>isWorking = False, st_shiftType = Off, visualType = Dash,
               label = ''Day Off (Manual)''\<rparr>
          \<and> handleQuickCycle tz staff2 (Some (\<lambda>newStaff. newStaff)) (staff2 ! i) day
              (calculateShiftState tz (staff2 ! i) day) = Some staff3
          \<and> calculateShiftState tz (staff3 ! i) day = calculateShiftState tz ?p day
          \<and> findOverride (staff3 ! i) ?d = None
          \<and> staff3 ! i = ?p\<lparr>overrides := Some old\<rparr>
          \<and> length staff3 = length staff
          \<and> (\<forall>j < length staff. staff_id (staff ! j) \<noteq> staff_id ?p \<longrightarrow> staff3 ! j = staff ! j)"
    by blast
  with s0 show ?thesis unfolding old_def by blast
qed

theorem handleQuickCycle_three_clicks_witness:
  "findOverride (exampleStaff ''2024-01-01'' 5 2 None) (fullDateStr (exampleDay ''2024-01-03''))
     = None
   \<and> isStaffWorking (fixedOffset 7200000) (exampleStaff ''2024-01-01'' 5 2 None)
        (fullDateStr (exampleDay ''2024-01-03''))
   \<and> (\<exists>staff1 staff2 staff3.
        handleQuickCycle (fixedOffset 7200000)
          [exampleStaff ''2024-01-01'' 5 2 None,
           (exampleStaff ''2024-02-01'' 3 4 None)\<lparr>staff_id := ''s2''\<rparr>]
          (Some (\<lambda>newStaff. newStaff)) (exampleStaff ''2024-01-01'' 5 2 None)
          (exampleDay ''2024-01-03'')
          (calculateShiftState (fixedOffset 7200000) (exampleStaff ''2024-01-01'' 5 2 None)
             (exampleDay ''2024-01-03'')) = Some staff1
      \<and> calculateShiftState (fixedOffset 7200000) (staff1 ! 0) (exampleDay ''2024-01-03'') =
          \<lparr>isWorking = True, st_shiftType = Shift Half, visualType = Hollow,
           label = ''Half Shift (Manual)''\<rparr>
      \<and> handleQuickCycle (fixedOffset 7200000) staff1 (Some (\<lambda>newStaff. newStaff))
          (staff1 ! 0) (exampleDay ''2024-01-03'')
          (calculateShiftState (fixedOffset 7200000) (staff1 ! 0) (exampleDay ''2024-01-03''))
          = Some staff2
      \<and> calculateShiftState (fixedOffset 7200000) (staff2 ! 0) (exampleDay ''2024-01-03'') =
          \<lparr>isWorking = False, st_shiftType = Off, visualType = Dash,
           label = ''Day Off (Manual)''\<rparr>
      \<and> handleQuickCycle (fixedOffset 7200000) staff2 (Some (\<lambda>newStaff. newStaff))
          (staff2 ! 0) (exampleDay ''2024-01-03'')
          (calculateShiftState (fixedOffset 7200000) (staff2 ! 0) (exampleDay ''2024-01-03''))
          = Some staff3
      \<and> calculateShiftState (fixedOffset 7200000) (staff3 ! 0) (exampleDay ''2024-01-03'') =
          \<lparr>isWorking = True, st_shiftType = Shift Normal, visualType = Solid,
           label = ''Normal Shift''\<rparr>
      \<and> staff3 ! 0 = (exampleStaff ''2024-01-01'' 5 2 None)\<lparr>overrides := Some []\<rparr>
      \<and> length staff3 = 2
      \<and> staff3 ! 1 = (exampleStaff ''2024-02-01'' 3 4 None)\<lparr>staff_id := ''s2''\<rparr>)"
proof -
  let ?tz = "fixedOffset 7200000"
  let ?p = "exampleStaff ''2024-01-01'' 5 2 None"
  let ?q = "(exampleStaff ''2024-02-01'' 3 4 None)\<lparr>staff_id := ''s2''\<rparr>"
  let ?day = "exampleDay ''2024-01-03''"
  have i: "0 < length [?p, ?q]" by simp
  have h: "findOverride ([?p, ?q] ! 0) (fullDateStr ?day) = None"
    by (simp add: findOverride_def exampleStaff_def)
  have w: "isStaffWorking ?tz ([?p, ?q] ! 0) (fullDateStr ?day)"
    using example_working by (simp add: exampleDay_def)
  have o: "(case overrides ?p of None \<Rightarrow> [] | Some ovs \<Rightarrow> ovs) = []"
    by (simp add: exampleStaff_def)
  have ne: "staff_id ?q \<noteq> staff_id ?p" by (simp add: exampleStaff_def)
  from handleQuickCycle_three_clicks[OF i h w]
  obtain staff1 staff2 staff3 where
    s0: "calculateShiftState ?tz ([?p, ?q] ! 0) ?day =
           \<lparr>isWorking = True, st_shiftType = Shift Normal, visualType = Solid,
            label = ''Normal Shift''\<rparr>" and
    h1: "handleQuickCycle ?tz [?p, ?q] (Some (\<lambda>newStaff. newStaff)) ([?p, ?q] ! 0) ?day
           (calculateShiftState ?tz ([?p, ?q] ! 0) ?day) = Some staff1" and
    s1: "calculateShiftState ?tz (staff1 ! 0) ?day =
           \<lparr>isWorking = True, st_shiftType = Shift Half, visualType = Hollow,
            label = ''Half Shift (Manual)''\<rparr>" and
    h2: "handleQuickCycle ?tz staff1 (Some (\<lambda>newStaff. newStaff)) (staff1 ! 0) ?day
           (calculateShiftState ?tz (staff1 ! 0) ?day) = Some staff2" and
    s2: "calculateShiftState ?tz (staff2 ! 0) ?day =
           \<lparr>isWorking = False, st_shiftType = Off, visualType = Dash,
            label = ''Day Off (Manual)''\<rparr>" and
    h3: "handleQuickCycle ?tz staff2 (Some (\<lambda>newStaff. newStaff)) (staff2 ! 0) ?day
           (calculateShiftState ?tz (staff2 ! 0) ?day) = Some staff3" and
    s3: "calculateShiftState ?tz (staff3 ! 0) ?day = calculateShiftState ?tz ([?p, ?q] ! 0) ?day" and
    p3: "staff3 ! 0 = ([?p, ?q] ! 0)\<lparr>overrides :=
           Some (case overrides ([?p, ?q] ! 0) of None \<Rightarrow> [] | Some ovs \<Rightarrow> ovs)\<rparr>" and
    l3: "length staff3 = length [?p, ?q]" and
    o3: "\<forall>j < length [?p, ?q].
           staff_id ([?p, ?q] ! j) \<noteq> staff_id ([?p, ?q] ! 0) \<longrightarrow> staff3 ! j = [?p, ?q] ! j"
    by blast
  have s3': "calculateShiftState ?tz (staff3 ! 0) ?day =
           \<lparr>isWorking = True, st_shiftType = Shift Normal, visualType = Solid,
            label = ''Normal Shift''\<rparr>"
    using s3 s0 by simp
  have p3': "staff3 ! 0 = ?p\<lparr>overrides := Some []\<rparr>"
    using p3 o by simp
  have l3': "length staff3 = 2" using l3 by simp
  have "staff_id ([?p, ?q] ! 1) \<noteq> staff_id ([?p, ?q] ! 0)" using ne by simp
  with o3 have "staff3 ! 1 = [?p, ?q] ! 1" by simp
  then have q3: "staff3 ! 1 = ?q" by simp
  have h1': "handleQuickCycle ?tz [?p, ?q] (Some (\<lambda>newStaff. newStaff)) ?p ?day
           (calculateShiftState ?tz ?p ?day) = Some staff1"
    using h1 by simp
  have h': "findOverride ?p (fullDateStr ?day) = None" using h by simp
  have w': "isStaffWorking ?tz ?p (fullDateStr ?day)" using w by simp
  from h' w' h1' s1 h2 s2 h3 s3' p3' l3' q3 show ?thesis by blast
qed

section \<open>Totality\<close>

text \<open>
  Claim C7. On date strings of the form YYYY-MM-DD, with a cycle of at least one day, at a host
  whose offset from universal time is at most a day, the arithmetic of \<open>isStaffWorking\<close>
  never meets \<^verbatim>\<open>NaN\<close> (the only way these functions can fail, since no operation of theirs
  throws): the day difference and the day in the cycle are numbers, the latter inside the
  cycle, and the answer is the comparison of it with \<open>patternOn\<close>. \<open>calculateShiftState\<close>
  returns one of its five states, and \<open>getShiftTimes\<close> a window of two non-empty times.
\<close>

theorem calculator_total:
  assumes "isoDate (cycleStartDate staff)" and "isoDate (fullDateStr day)"
    and "1 \<le> patternOn staff + patternOff staff" and "plausibleZone tz"
  shows "(\<exists>n k. diffDays tz staff (fullDateStr day) = Some n
            \<and> dayInCycle tz staff (fullDateStr day) = Some k
            \<and> 0 \<le> k \<and> k < patternOn staff + patternOff staff
            \<and> isStaffWorking tz staff (fullDateStr day) = (k < patternOn staff))
       \<and> calculateShiftState tz staff day \<in>
           {\<lparr>isWorking = False, st_shiftType = Off, visualType = Dash,
              label = ''Day Off (Manual)''\<rparr>,
            \<lparr>isWorking = True, st_shiftType = Shift Half, visualType = Hollow,
              label = ''Half Shift (Manual)''\<rparr>,
            \<lparr>isWorking = True, st_shiftType = Shift Normal, visualType = Solid,
              label = ''Normal Shift (Manual)''\<rparr>,
            \<lparr>isWorking = False, st_shiftType = Off, visualType = Dash, label = ''Off''\<rparr>,
            \<lparr>isWorking = True, st_shiftType = Shift Normal, visualType = Solid,
              label = ''Normal Shift''\<rparr>}
       \<and> (\<exists>s e. getShiftTimes staff (fullDateStr day) t = \<lparr>t_start = s, t_end = e\<rparr>
              \<and> s \<noteq> [] \<and> e \<noteq> [])"
proof -
  from diffDays_isoDate[OF assms(1,2,4)] obtain n where
    n: "diffDays tz staff (fullDateStr day) = Some n" by blast
  from isStaffWorking_pattern[OF n assms(3)] n
  have a: "\<exists>n k. diffDays tz staff (fullDateStr day) = Some n
            \<and> dayInCycle tz staff (fullDateStr day) = Some k
            \<and> 0 \<le> k \<and> k < patternOn staff + patternOff staff
            \<and> isStaffWorking tz staff (fullDateStr day) = (k < patternOn staff)"
    by blast
  have b: "calculateShiftState tz staff day \<in>
           {\<lparr>isWorking = False, st_shiftType = Off, visualType = Dash,
              label = ''Day Off (Manual)''\<rparr>,
            \<lparr>isWorking = True, st_shiftType = Shift Half, visualType = Hollow,
              label = ''Half Shift (Manual)''\<rparr>,
            \<lparr>isWorking = True, st_shiftType = Shift Normal, visualType = Solid,
              label = ''Normal Shift (Manual)''\<rparr>,
            \<lparr>isWorking = False, st_shiftType = Off, visualType = Dash, label = ''Off''\<rparr>,
            \<lparr>isWorking = True, st_shiftType = Shift Normal, visualType = Solid,
              label = ''Normal Shift''\<rparr>}"
    by (simp add: calculateShiftState_def Let_def)
  have c: "\<exists>s e. getShiftTimes staff (fullDateStr day) t = \<lparr>t_start = s, t_end = e\<rparr>
              \<and> s \<noteq> [] \<and> e \<noteq> []"
    by (auto simp: getShiftTimes_def truthy_str_def Let_def split: option.splits)
  from a b c show ?thesis by blast
qed

theorem calculator_total_witness:
  "isoDate (cycleStartDate (exampleStaff ''2024-01-01'' 5 2 None))
   \<and> isoDate (fullDateStr (exampleDay ''2023-12-25''))
   \<and> 1 \<le> patternOn (exampleStaff ''2024-01-01'' 5 2 None)
          + patternOff (exampleStaff ''2024-01-01'' 5 2 None)
   \<and> plausibleZone (fixedOffset 7200000)
   \<and> (\<exists>n k. diffDays (fixedOffset 7200000) (exampleStaff ''2024-01-01'' 5 2 None)
               (fullDateStr (exampleDay ''2023-12-25'')) = Some n
          \<and> dayInCycle (fixedOffset 7200000) (exampleStaff ''2024-01-01'' 5 2 None)
               (fullDateStr (exampleDay ''2023-12-25'')) = Some k
          \<and> 0 \<le> k \<and> k < 7
          \<and> isStaffWorking (fixedOffset 7200000) (exampleStaff ''2024-01-01'' 5 2 None)
               (fullDateStr (exampleDay ''2023-12-25'')) = (k < 5))"
proof -
  have a: "isoDate (cycleStartDate (exampleStaff ''2024-01-01'' 5 2 None))"
    by (simp add: exampleStaff_def is_digit_def digit_val_def)
  have b: "isoDate (fullDateStr (exampleDay ''2023-12-25''))"
    by (simp add: exampleDay_def is_digit_def digit_val_def)
  have c: "1 \<le> patternOn (exampleStaff ''2024-01-01'' 5 2 None)
          + patternOff (exampleStaff ''2024-01-01'' 5 2 None)"
    by (simp add: exampleStaff_def)
  have e: "plausibleZone (fixedOffset 7200000)"
    by (rule plausibleZone_fixedOffset) (simp add: msPerDay_def)
  have pf: "patternOn (exampleStaff ''2024-01-01'' 5 2 None) = 5"
      "patternOff (exampleStaff ''2024-01-01'' 5 2 None) = 2"
    by (simp_all add: exampleStaff_def)
  from calculator_total[OF a b c e, where t = Normal] a b c e show ?thesis
    unfolding pf by simp
qed

end
